theory Spec2Isabelle
  imports Main
begin

section \<open>JSON values and the Python operations the converters use on them\<close>

text \<open>
  The converters work on parsed JSON documents. Values that are passed through without
  being inspected (tool arguments, parameter schemas, tool-result payloads) are kept as
  \<open>json\<close>; a Python \<open>dict\<close> is an association list in insertion order with first-match
  lookup. JSON numbers are restricted to integers.
\<close>

datatype json =
    JNull
  | JBool bool
  | JInt int
  | JStr string
  | JArray "json list"
  | JObject "(string \<times> json) list"

datatype error = TypeError | KeyError | AttributeError

text \<open>\<open>d.get(k, default)\<close> on an optional field: the value when present, else the default.\<close>

definition dget :: "'a option \<Rightarrow> 'a \<Rightarrow> 'a" where
  "dget x d = (case x of None \<Rightarrow> d | Some v \<Rightarrow> v)"

text \<open>\<open>d[k] = v\<close> on a dict: replaces the value in place, or appends a new key.\<close>

fun dict_set :: "string \<Rightarrow> json \<Rightarrow> (string \<times> json) list \<Rightarrow> (string \<times> json) list" where
  "dict_set k v [] = [(k, v)]"
| "dict_set k v ((k', v') # d) = (if k' = k then (k, v) # d else (k', v') # dict_set k v d)"

text \<open>\<open>s.startswith(p)\<close> and the substring test \<open>k in s\<close> on strings.\<close>

definition startswith :: "string \<Rightarrow> string \<Rightarrow> bool" where
  "startswith s p = (take (length p) s = p)"

fun contains_str :: "string \<Rightarrow> string \<Rightarrow> bool" where
  "contains_str k [] = (k = [])"
| "contains_str k (c # cs) = (startswith (c # cs) k \<or> contains_str k cs)"

text \<open>\<open>sep.join(xs)\<close>.\<close>

fun join :: "string \<Rightarrow> string list \<Rightarrow> string" where
  "join sep [] = []"
| "join sep [x] = x"
| "join sep (x # y # ys) = x @ sep @ join sep (y # ys)"

definition newline :: char where
  "newline = CHR 0x0A"

definition backtick :: char where
  "backtick = CHR 0x60"

text \<open>
  \<open>re.search(r'Observation of Tool `([^`]+)`', s)\<close>: the leftmost position at which the
  literal prefix is followed by one or more characters other than a backtick and then a
  backtick; group 1 is that run of characters. \<open>tool_pattern_here\<close> is the match attempt at
  the start of its argument.
\<close>

definition observation_prefix :: string where
  "observation_prefix = ''Observation of Tool '' @ [backtick]"

definition tool_pattern_here :: "string \<Rightarrow> string option" where
  "tool_pattern_here s =
     (if startswith s observation_prefix then
        (let r = drop (length observation_prefix) s;
             n = takeWhile (\<lambda>c. c \<noteq> backtick) r
         in if n \<noteq> [] \<and> length n < length r then Some n else None)
      else None)"

fun re_search_tool :: "string \<Rightarrow> string option" where
  "re_search_tool [] = None"
| "re_search_tool (c # cs) =
     (case tool_pattern_here (c # cs) of Some n \<Rightarrow> Some n | None \<Rightarrow> re_search_tool cs)"

section \<open>Claude requests\<close>

text \<open>
  A Claude message is a dict with the keys \<open>role\<close>, \<open>content\<close> and \<open>name\<close>; an absent key
  is \<open>None\<close>. The content is a string, a list of items, or any other JSON value. An item is
  a bare string or a dict dispatched on its \<open>type\<close> key; \<open>COtherItem\<close> stands for every
  item the converters skip (a dict of another type, or a value that is neither a string
  nor a dict). The fields the converters read are typed as the wire format defines them:
  roles, identifiers, names, texts, media types, image data and URLs are strings, and the
  \<open>source\<close> of an image is a dict. The \<open>content\<close> of a \<open>tool_result\<close> and the \<open>input\<close> of
  a \<open>tool_use\<close> are arbitrary JSON. \<open>COther\<close> holds a content that is neither a string
  nor a list.
\<close>

record image_source =
  src_type :: "string option"
  src_media_type :: "string option"
  src_data :: "string option"
  src_url :: "string option"

datatype claude_item =
    CStrItem string
  | CText "string option"
  | CImage "image_source option"
  | CToolUse "string option" "string option" "json option"
  | CToolResult "string option" "json option"
  | COtherItem

datatype claude_content =
    CStr string
  | CList "claude_item list"
  | COther json

record claude_message =
  c_role :: "string option"
  c_content :: "claude_content option"
  c_name :: "string option"

record claude_tool =
  t_name :: "string option"
  t_description :: "string option"
  t_input_schema :: "json option"

record claude_request =
  cr_messages :: "claude_message list option"
  cr_tools :: "claude_tool list option"

section \<open>Gemini requests\<close>

text \<open>
  The request the Gemini-target converters build. A part is \<open>{"text": s}\<close>,
  \<open>{"inline_data": {"mime_type": m, "data": d}}\<close>,
  \<open>{"functionCall": {"name": n, "args": a}}\<close> or
  \<open>{"functionResponse": {"name": n, "response": {"result": r}}}\<close>; a content is
  \<open>{"role": r, "parts": ps}\<close>; \<open>systemInstruction\<close> is \<open>{"parts": ps}\<close>, and \<open>tools\<close> a list
  of \<open>{"functionDeclarations": fs}\<close>. The keys \<open>systemInstruction\<close> and \<open>tools\<close> are
  \<open>None\<close> when absent.
\<close>

datatype part =
    Text string
  | InlineData string string
  | FunctionCall string json
  | FunctionResponse string string

record gemini_content =
  role :: string
  parts :: "part list"

record function_declaration =
  fd_name :: string
  fd_description :: string
  fd_parameters :: json

record gemini_tool =
  functionDeclarations :: "function_declaration list"

record gemini_request =
  contents :: "gemini_content list"
  systemInstruction :: "part list option"
  tools :: "gemini_tool list option"

section \<open>ClaudeToGeminiConverter\<close>

text \<open>
  \<open>str(content)\<close> of a content that is not a string is Python's rendering of the value; it
  is a parameter \<open>str_of\<close> of the model. On a string, \<open>str\<close> is the identity.
\<close>

definition c_str :: "(claude_content \<Rightarrow> string) \<Rightarrow> claude_content \<Rightarrow> string" where
  "c_str str_of c = (case c of CStr s \<Rightarrow> s | _ \<Rightarrow> str_of c)"

definition c2g_image_part :: "image_source option \<Rightarrow> part" where
  "c2g_image_part src =
     (let source = dget src \<lparr>src_type = None, src_media_type = None, src_data = None, src_url = None\<rparr>
      in InlineData (dget (src_media_type source) ''image/jpeg'') (dget (src_data source) ''''))"

text \<open>
  One item of a content list: the parts it appends. \<open>re.search\<close> raises \<open>TypeError\<close> on a
  tool-result content that is not a string.
\<close>

fun c2g_convert_item :: "claude_item \<Rightarrow> error + part list" where
  "c2g_convert_item (CStrItem s) = Inr [Text s]"
| "c2g_convert_item (CText t) = Inr [Text (dget t '''')]"
| "c2g_convert_item (CImage src) = Inr [c2g_image_part src]"
| "c2g_convert_item (CToolUse i n inp) =
     Inr [FunctionCall (dget n ''unknown'') (dget inp (JObject []))]"
| "c2g_convert_item (CToolResult i c) =
     (case dget c (JStr '''') of
        JStr s \<Rightarrow>
          Inr [FunctionResponse
                 (case re_search_tool s of Some n \<Rightarrow> n | None \<Rightarrow> ''unknown'') s]
      | _ \<Rightarrow> Inl TypeError)"
| "c2g_convert_item COtherItem = Inr []"

fun c2g_convert_items :: "claude_item list \<Rightarrow> part list \<Rightarrow> error + part list" where
  "c2g_convert_items [] ps = Inr ps"
| "c2g_convert_items (item # items) ps =
     (case c2g_convert_item item of
        Inl e \<Rightarrow> Inl e
      | Inr new \<Rightarrow> c2g_convert_items items (ps @ new))"

definition c2g_content_parts ::
  "(claude_content \<Rightarrow> string) \<Rightarrow> claude_content \<Rightarrow> error + part list" where
  "c2g_content_parts str_of content =
     (case content of
        CStr s \<Rightarrow> Inr [Text s]
      | CList items \<Rightarrow> c2g_convert_items items []
      | COther v \<Rightarrow> Inr [Text (str_of content)])"

text \<open>The body of the loop of \<open>convert_messages\<close>: the turns one message appends.\<close>

definition c2g_convert_message ::
  "(claude_content \<Rightarrow> string) \<Rightarrow> claude_message \<Rightarrow> error + gemini_content list" where
  "c2g_convert_message str_of message =
     (let r = dget (c_role message) '''';
          content = dget (c_content message) (CStr '''');
          regular = (\<lambda>gemini_role.
            case c2g_content_parts str_of content of
              Inl e \<Rightarrow> Inl e
            | Inr ps \<Rightarrow> Inr [\<lparr>role = gemini_role, parts = ps\<rparr>])
      in if r = ''user'' then regular ''user''
         else if r = ''assistant'' then regular ''model''
         else if r = ''tool'' then
           Inr [\<lparr>role = ''model'',
                 parts = [Text (''Tool Response ('' @ dget (c_name message) ''tool'' @ ''):''
                                @ [newline] @ c_str str_of content)]\<rparr>]
         else if r = ''system'' then Inr []
         else regular ''user'')"

fun c2g_convert_messages_loop ::
  "(claude_content \<Rightarrow> string) \<Rightarrow> claude_message list \<Rightarrow> gemini_content list
     \<Rightarrow> error + gemini_content list" where
  "c2g_convert_messages_loop str_of [] gemini_messages = Inr gemini_messages"
| "c2g_convert_messages_loop str_of (message # rest) gemini_messages =
     (case c2g_convert_message str_of message of
        Inl e \<Rightarrow> Inl e
      | Inr new \<Rightarrow> c2g_convert_messages_loop str_of rest (gemini_messages @ new))"

definition c2g_convert_messages ::
  "(claude_content \<Rightarrow> string) \<Rightarrow> claude_message list \<Rightarrow> error + gemini_content list" where
  "c2g_convert_messages str_of claude_messages =
     c2g_convert_messages_loop str_of claude_messages []"

text \<open>
  \<open>convert_tools\<close>: one declaration per tool, in order; the early return on an empty list
  is the empty result of the loop.
\<close>

definition c2g_convert_tools :: "claude_tool list \<Rightarrow> function_declaration list" where
  "c2g_convert_tools claude_tools =
     map (\<lambda>tool. \<lparr>fd_name = dget (t_name tool) '''',
                  fd_description = dget (t_description tool) '''',
                  fd_parameters = dget (t_input_schema tool) (JObject [])\<rparr>) claude_tools"

section \<open>The schema repair pass (fix_request_issues of both Gemini-target converters)\<close>

text \<open>
  \<open>ClaudeToGeminiConverter.fix_request_issues\<close> and
  \<open>OpenAIToGeminiConverter.fix_request_issues\<close> have the same body; \<open>fix_request_issues\<close>
  embeds it. The parameter schema of a declaration is whatever JSON the caller supplied, so
  the Python operators applied to it are modelled on every JSON value, with the exceptions
  they raise.
\<close>

definition then_do :: "error + 'a \<Rightarrow> ('a \<Rightarrow> error + 'b) \<Rightarrow> error + 'b" where
  "then_do r f = (case r of Inl e \<Rightarrow> Inl e | Inr v \<Rightarrow> f v)"

fun map_err :: "('a \<Rightarrow> error + 'b) \<Rightarrow> 'a list \<Rightarrow> error + 'b list" where
  "map_err f [] = Inr []"
| "map_err f (x # xs) =
     (case f x of
        Inl e \<Rightarrow> Inl e
      | Inr y \<Rightarrow> (case map_err f xs of Inl e \<Rightarrow> Inl e | Inr ys \<Rightarrow> Inr (y # ys)))"

text \<open>\<open>k in x\<close> for a string \<open>k\<close>: key of a dict, element of a list, substring of a string.\<close>

fun py_in :: "string \<Rightarrow> json \<Rightarrow> error + bool" where
  "py_in k (JObject d) = Inr (map_of d k \<noteq> None)"
| "py_in k (JArray xs) = Inr (JStr k \<in> set xs)"
| "py_in k (JStr s) = Inr (contains_str k s)"
| "py_in k JNull = Inl TypeError"
| "py_in k (JBool b) = Inl TypeError"
| "py_in k (JInt i) = Inl TypeError"

text \<open>\<open>x[k]\<close> for a string \<open>k\<close>: only a dict can be indexed by a string.\<close>

fun py_getitem :: "json \<Rightarrow> string \<Rightarrow> error + json" where
  "py_getitem (JObject d) k = (case map_of d k of Some v \<Rightarrow> Inr v | None \<Rightarrow> Inl KeyError)"
| "py_getitem JNull k = Inl TypeError"
| "py_getitem (JBool b) k = Inl TypeError"
| "py_getitem (JInt i) k = Inl TypeError"
| "py_getitem (JStr s) k = Inl TypeError"
| "py_getitem (JArray xs) k = Inl TypeError"

text \<open>\<open>x[k] = v\<close>.\<close>

fun py_setitem :: "json \<Rightarrow> string \<Rightarrow> json \<Rightarrow> error + json" where
  "py_setitem (JObject d) k v = Inr (JObject (dict_set k v d))"
| "py_setitem JNull k v = Inl TypeError"
| "py_setitem (JBool b) k v = Inl TypeError"
| "py_setitem (JInt i) k v = Inl TypeError"
| "py_setitem (JStr s) k v = Inl TypeError"
| "py_setitem (JArray xs) k v = Inl TypeError"

text \<open>\<open>for param in x\<close>: the elements of a list, the characters of a string, the keys of a dict.\<close>

fun py_iter :: "json \<Rightarrow> error + json list" where
  "py_iter (JArray xs) = Inr xs"
| "py_iter (JStr s) = Inr (map (\<lambda>c. JStr [c]) s)"
| "py_iter (JObject d) = Inr (map (\<lambda>kv. JStr (fst kv)) d)"
| "py_iter JNull = Inl TypeError"
| "py_iter (JBool b) = Inl TypeError"
| "py_iter (JInt i) = Inl TypeError"

text \<open>
  The patches on \<open>func['parameters']\<close>. \<open>rebuild_required\<close> is the common shape of the
  patches of the \<open>required\<close> list:
  \<open>if 'required' in p and old in p['required']: p['required'] = [... for param in p['required']]\<close>.
\<close>

definition rebuild_required ::
  "string \<Rightarrow> (json list \<Rightarrow> json list) \<Rightarrow> json \<Rightarrow> error + json" where
  "rebuild_required old rebuild params =
     then_do (py_in ''required'' params) (\<lambda>has_required.
       if \<not> has_required then Inr params
       else then_do (py_getitem params ''required'') (\<lambda>required.
         then_do (py_in old required) (\<lambda>has_old.
           if \<not> has_old then Inr params
           else then_do (py_iter required) (\<lambda>ps.
             py_setitem params ''required'' (JArray (rebuild ps))))))"

definition rename_required :: "string \<Rightarrow> string \<Rightarrow> json \<Rightarrow> error + json" where
  "rename_required old new params =
     rebuild_required old (map (\<lambda>param. if param = JStr old then JStr new else param)) params"

definition remove_required :: "string \<Rightarrow> json \<Rightarrow> error + json" where
  "remove_required old params =
     rebuild_required old (filter (\<lambda>param. param \<noteq> JStr old)) params"

text \<open>
  The second patch of \<open>gemini_edit\<close>: the \<open>type\<close> of the property \<open>images\<close>, when it is a
  list, becomes the string \<open>array\<close>. \<open>.get\<close> on a value that is not a dict raises
  \<open>AttributeError\<close>.
\<close>

definition fix_images_type :: "json \<Rightarrow> error + json" where
  "fix_images_type params =
     then_do (py_in ''properties'' params) (\<lambda>has_properties.
       if \<not> has_properties then Inr params
       else then_do (py_getitem params ''properties'') (\<lambda>properties.
         then_do (py_in ''images'' properties) (\<lambda>has_images.
           if \<not> has_images then Inr params
           else then_do (py_getitem properties ''images'') (\<lambda>images.
             case images of
               JObject d \<Rightarrow>
                 (case map_of d ''type'' of
                    Some (JArray ts) \<Rightarrow>
                      then_do (py_setitem images ''type'' (JStr ''array'')) (\<lambda>images'.
                        then_do (py_setitem properties ''images'' images') (\<lambda>properties'.
                          py_setitem params ''properties'' properties'))
                  | _ \<Rightarrow> Inr params)
             | _ \<Rightarrow> Inl AttributeError))))"

definition fix_function_declaration :: "function_declaration \<Rightarrow> error + function_declaration" where
  "fix_function_declaration func =
     (let store = (\<lambda>r. then_do r (\<lambda>p. Inr (func\<lparr>fd_parameters := p\<rparr>)))
      in if fd_name func = ''segment_anything'' then
           store (rename_required ''object'' ''object_english_name'' (fd_parameters func))
         else if fd_name func = ''Pira_image2image'' then
           store (remove_required ''cfg'' (fd_parameters func))
         else if fd_name func = ''gemini_edit'' then
           store (then_do (rename_required ''image'' ''images'' (fd_parameters func)) fix_images_type)
         else if fd_name func = ''outpaint'' then
           store (rename_required ''prompt'' ''english_prompt'' (fd_parameters func))
         else Inr func)"

definition fix_tool :: "gemini_tool \<Rightarrow> error + gemini_tool" where
  "fix_tool tool =
     then_do (map_err fix_function_declaration (functionDeclarations tool))
       (\<lambda>fs. Inr (tool\<lparr>functionDeclarations := fs\<rparr>))"

definition fix_request_issues :: "gemini_request \<Rightarrow> error + gemini_request" where
  "fix_request_issues request_data =
     (let fixed_data = request_data\<lparr>contents :=
            filter (\<lambda>content. parts content \<noteq> []) (contents request_data)\<rparr>
      in case tools fixed_data of
           None \<Rightarrow> Inr fixed_data
         | Some ts \<Rightarrow> then_do (map_err fix_tool ts) (\<lambda>ts'. Inr (fixed_data\<lparr>tools := Some ts'\<rparr>)))"

text \<open>
  \<open>ClaudeToGeminiConverter.convert_request\<close>. The join of the system texts raises
  \<open>TypeError\<close> on a content that is not a string.
\<close>

definition system_text_of :: "claude_message \<Rightarrow> error + string" where
  "system_text_of msg =
     (case dget (c_content msg) (CStr '''') of CStr s \<Rightarrow> Inr s | _ \<Rightarrow> Inl TypeError)"

definition c2g_convert_request ::
  "(claude_content \<Rightarrow> string) \<Rightarrow> claude_request \<Rightarrow> error + gemini_request" where
  "c2g_convert_request str_of claude_request =
     (let messages = dget (cr_messages claude_request) [];
          tools_in = dget (cr_tools claude_request) [];
          system_messages = filter (\<lambda>msg. c_role msg = Some ''system'') messages;
          non_system_messages = filter (\<lambda>msg. c_role msg \<noteq> Some ''system'') messages
      in then_do (c2g_convert_messages str_of non_system_messages) (\<lambda>gemini_contents.
           then_do (if system_messages \<noteq> [] then
                      then_do (map_err system_text_of system_messages)
                        (\<lambda>texts. Inr (Some [Text (join [newline] texts)]))
                    else Inr None) (\<lambda>system_instruction.
             fix_request_issues
               \<lparr>contents = gemini_contents,
                systemInstruction = system_instruction,
                tools = (if tools_in \<noteq> [] then
                           (let gemini_functions = c2g_convert_tools tools_in
                            in if gemini_functions \<noteq> [] then
                                 Some [\<lparr>functionDeclarations = gemini_functions\<rparr>]
                               else None)
                         else None)\<rparr>)))"

section \<open>OpenAI requests\<close>

text \<open>
  An OpenAI message is a dict with the keys \<open>role\<close>, \<open>content\<close>, \<open>tool_calls\<close>,
  \<open>tool_call_id\<close> and \<open>name\<close>; an absent key is \<open>None\<close>. The same types describe the
  messages \<open>ClaudeToOpenAIConverter\<close> writes and those \<open>OpenAIToGeminiConverter\<close> reads.
  \<open>OOther\<close> holds a content that is neither a string nor a list of items (\<open>null\<close>
  included); \<open>OOtherItem\<close> stands for every item the converter skips.
\<close>

record openai_function =
  f_name :: "string option"
  f_arguments :: "json option"

record openai_tool_call =
  tc_id :: "string option"
  tc_type :: "string option"
  tc_function :: "openai_function option"

record image_url =
  iu_url :: "string option"

datatype openai_item =
    OStrItem string
  | OText "string option"
  | OImageUrl "image_url option"
  | OOtherItem

datatype openai_content =
    OStr string
  | OList "openai_item list"
  | OOther json

record openai_message =
  o_role :: "string option"
  o_content :: "openai_content option"
  o_tool_calls :: "openai_tool_call list option"
  o_tool_call_id :: "string option"
  o_name :: "string option"

record openai_function_def =
  fn_name :: "string option"
  fn_description :: "string option"
  fn_parameters :: "json option"

record openai_tool =
  ot_type :: "string option"
  ot_function :: "openai_function_def option"

record openai_request =
  or_messages :: "openai_message list option"
  or_tools :: "openai_tool list option"

section \<open>OpenAIToGeminiConverter\<close>

text \<open>
  The map from \<open>tool_call_id\<close> to tool name, built by the first loop of
  \<open>convert_messages\<close> over all messages: a later assignment to the same key replaces the
  earlier one.
\<close>

fun o2g_record_tool_calls ::
  "openai_tool_call list \<Rightarrow> (string \<rightharpoonup> string) \<Rightarrow> (string \<rightharpoonup> string)" where
  "o2g_record_tool_calls [] m = m"
| "o2g_record_tool_calls (tool_call # rest) m =
     (let tool_call_id = dget (tc_id tool_call) '''';
          function_data = dget (tc_function tool_call) \<lparr>f_name = None, f_arguments = None\<rparr>;
          tool_name = dget (f_name function_data) ''''
      in o2g_record_tool_calls rest
           (if tool_call_id \<noteq> '''' \<and> tool_name \<noteq> '''' then m(tool_call_id \<mapsto> tool_name) else m))"

fun o2g_tool_call_id_to_name ::
  "openai_message list \<Rightarrow> (string \<rightharpoonup> string) \<Rightarrow> (string \<rightharpoonup> string)" where
  "o2g_tool_call_id_to_name [] m = m"
| "o2g_tool_call_id_to_name (message # rest) m =
     o2g_tool_call_id_to_name rest
       (case o_tool_calls message of
          None \<Rightarrow> m
        | Some tcs \<Rightarrow> if tcs \<noteq> [] then o2g_record_tool_calls tcs m else m)"

text \<open>
  \<open>re.match(r'data:([^;]+);base64,(.+)', url)\<close>, tried only on a url that starts with
  \<open>data:\<close>: group 1 is the run of characters up to the first semicolon, group 2 the run of
  characters other than a newline after \<open>;base64,\<close>; both must be non-empty.
\<close>

definition re_match_data_url :: "string \<Rightarrow> (string \<times> string) option" where
  "re_match_data_url u =
     (if startswith u ''data:'' then
        (let r = drop 5 u;
             mime_type = takeWhile (\<lambda>c. c \<noteq> CHR '';'') r;
             after = dropWhile (\<lambda>c. c \<noteq> CHR '';'') r;
             base64_data = takeWhile (\<lambda>c. c \<noteq> newline) (drop 8 after)
         in if mime_type \<noteq> [] \<and> startswith after '';base64,'' \<and> base64_data \<noteq> []
            then Some (mime_type, base64_data) else None)
      else None)"

fun o2g_convert_item :: "openai_item \<Rightarrow> part list" where
  "o2g_convert_item (OText t) = [Text (dget t '''')]"
| "o2g_convert_item (OImageUrl iu) =
     (let image_url_data = dget iu \<lparr>iu_url = None\<rparr>;
          u = dget (iu_url image_url_data) ''''
      in if startswith u ''data:'' then
           (case re_match_data_url u of
              Some (mime_type, base64_data) \<Rightarrow> [InlineData mime_type base64_data]
            | None \<Rightarrow> [])
         else [Text (''[Image: '' @ u @ '']'')])"
| "o2g_convert_item (OStrItem s) = [Text s]"
| "o2g_convert_item OOtherItem = []"

text \<open>
  \<open>json.loads\<close> is a parameter: \<open>None\<close> when it raises. \<open>str(content)\<close> of a content that
  is not a string is the parameter \<open>str_of\<close>.
\<close>

definition o2g_function_call :: "(string \<Rightarrow> json option) \<Rightarrow> openai_tool_call \<Rightarrow> part" where
  "o2g_function_call json_loads tool_call =
     (let function_data = dget (tc_function tool_call) \<lparr>f_name = None, f_arguments = None\<rparr>;
          args = (case dget (f_arguments function_data) (JStr ''{}'') of
                    JStr s \<Rightarrow> (case json_loads s of Some v \<Rightarrow> v | None \<Rightarrow> JObject [])
                  | v \<Rightarrow> v)
      in FunctionCall (dget (f_name function_data) '''') args)"

definition o_str :: "(openai_content \<Rightarrow> string) \<Rightarrow> openai_content \<Rightarrow> string" where
  "o_str str_of c = (case c of OStr s \<Rightarrow> s | _ \<Rightarrow> str_of c)"

text \<open>
  The body of the second loop of \<open>convert_messages\<close>, on the state
  \<open>(gemini_contents, system_instruction)\<close>.
\<close>

definition o2g_convert_message ::
  "(string \<Rightarrow> json option) \<Rightarrow> (openai_content \<Rightarrow> string) \<Rightarrow> (string \<rightharpoonup> string)
     \<Rightarrow> openai_message \<Rightarrow> gemini_content list \<times> part list option
     \<Rightarrow> gemini_content list \<times> part list option" where
  "o2g_convert_message json_loads str_of tool_call_id_to_name message st =
     (let gemini_contents = fst st;
          system_instruction = snd st;
          r = dget (o_role message) '''';
          content = dget (o_content message) (OStr '''')
      in if r = ''system'' then
           (case content of
              OStr s \<Rightarrow> (gemini_contents, Some [Text s])
            | _ \<Rightarrow> (gemini_contents, system_instruction))
         else
           (let gemini_role =
                  (if r = ''user'' then ''user''
                   else if r = ''assistant'' then ''model''
                   else if r = ''tool'' then ''user''
                   else ''user'')
            in if o_tool_calls message \<noteq> None \<and> o_tool_calls message \<noteq> Some [] then
                 (gemini_contents @
                    [\<lparr>role = gemini_role,
                      parts = map (o2g_function_call json_loads) (dget (o_tool_calls message) [])\<rparr>],
                  system_instruction)
               else if r = ''tool'' then
                 (let tool_call_id = dget (o_tool_call_id message) '''';
                      tool_name = dget (o_name message) '''';
                      tool_name = (if tool_name = [] \<and> tool_call_id \<noteq> []
                                   then dget (tool_call_id_to_name tool_call_id) ''''
                                   else tool_name);
                      tool_content = o_str str_of content
                  in (gemini_contents @
                        [\<lparr>role = gemini_role, parts = [FunctionResponse tool_name tool_content]\<rparr>],
                      system_instruction))
               else
                 (let ps = (case content of
                              OStr s \<Rightarrow> [Text s]
                            | OList items \<Rightarrow> concat (map o2g_convert_item items)
                            | OOther v \<Rightarrow> [Text (str_of content)])
                  in if ps \<noteq> [] then
                       (gemini_contents @ [\<lparr>role = gemini_role, parts = ps\<rparr>], system_instruction)
                     else (gemini_contents, system_instruction))))"

fun o2g_convert_messages_loop ::
  "(string \<Rightarrow> json option) \<Rightarrow> (openai_content \<Rightarrow> string) \<Rightarrow> (string \<rightharpoonup> string)
     \<Rightarrow> openai_message list \<Rightarrow> gemini_content list \<times> part list option
     \<Rightarrow> gemini_content list \<times> part list option" where
  "o2g_convert_messages_loop json_loads str_of m [] st = st"
| "o2g_convert_messages_loop json_loads str_of m (message # rest) st =
     o2g_convert_messages_loop json_loads str_of m rest
       (o2g_convert_message json_loads str_of m message st)"

definition o2g_convert_messages ::
  "(string \<Rightarrow> json option) \<Rightarrow> (openai_content \<Rightarrow> string) \<Rightarrow> openai_message list
     \<Rightarrow> gemini_content list \<times> part list option" where
  "o2g_convert_messages json_loads str_of openai_messages =
     (let tool_call_id_to_name = o2g_tool_call_id_to_name openai_messages Map.empty
      in o2g_convert_messages_loop json_loads str_of tool_call_id_to_name openai_messages ([], None))"

text \<open>
  \<open>convert_enum_values\<close>: the values of every \<open>enum\<close> list become strings, recursively
  through \<open>properties\<close>, \<open>items\<close> and \<open>additionalProperties\<close>. \<open>str(val)\<close> is the parameter
  \<open>str_of\<close>. The source updates \<open>schema_copy\<close> key by key and reads each key from the copy
  just before it replaces it; the four keys differ, so each read returns the value of the
  original \<open>schema\<close>, which is what the model looks up.
\<close>

lemma map_of_size_lt:
  "map_of d k = Some v \<Longrightarrow> size v < Suc (size_list (size_prod (\<lambda>_. 0) size) d)"
  by (induction d) (auto split: if_splits)

lemma set_size_lt:
  "kv \<in> set d \<Longrightarrow> size (snd kv) < Suc (size_list (size_prod (\<lambda>_. 0) size) d)"
  by (induction d) auto

definition stringify_enum ::
  "(json \<Rightarrow> string) \<Rightarrow> (string \<times> json) list \<Rightarrow> (string \<times> json) list" where
  "stringify_enum str_of d =
     (case map_of d ''enum'' of
        Some (JArray vs) \<Rightarrow> dict_set ''enum'' (JArray (map (\<lambda>val. JStr (str_of val)) vs)) d
      | _ \<Rightarrow> d)"

function (sequential) convert_enum_values :: "(json \<Rightarrow> string) \<Rightarrow> json \<Rightarrow> json" where
  "convert_enum_values str_of (JObject d) =
     JObject
       ((case map_of d ''additionalProperties'' of
           Some (JObject ap) \<Rightarrow>
             dict_set ''additionalProperties'' (convert_enum_values str_of (JObject ap))
         | _ \<Rightarrow> (\<lambda>schema_copy. schema_copy))
        ((case map_of d ''items'' of
            Some it \<Rightarrow> dict_set ''items'' (convert_enum_values str_of it)
          | None \<Rightarrow> (\<lambda>schema_copy. schema_copy))
         ((case map_of d ''properties'' of
             Some (JObject ps) \<Rightarrow>
               dict_set ''properties''
                 (JObject (map (\<lambda>kv. (fst kv, convert_enum_values str_of (snd kv))) ps))
           | _ \<Rightarrow> (\<lambda>schema_copy. schema_copy))
          (stringify_enum str_of d))))"
| "convert_enum_values str_of v = v"
  by pat_completeness auto
termination
proof (relation "measure (\<lambda>(s, v). size v)", goal_cases)
  case 1
  show ?case by simp
next
  case (2 str_of d x2 x6)
  then show ?case using map_of_size_lt[of d "''additionalProperties''" x2] by simp
next
  case (3 str_of d it)
  then show ?case using map_of_size_lt[of d "''items''" it] by simp
next
  case (4 str_of d x2 ps kv)
  then show ?case
    using map_of_size_lt[of d "''properties''" x2] set_size_lt[of kv ps] by simp
qed

definition o2g_convert_tools :: "(json \<Rightarrow> string) \<Rightarrow> openai_tool list \<Rightarrow> gemini_tool list" where
  "o2g_convert_tools str_of openai_tools =
     (let function_declarations =
            concat (map (\<lambda>tool.
              if ot_type tool = Some ''function'' then
                (let function_data = dget (ot_function tool)
                       \<lparr>fn_name = None, fn_description = None, fn_parameters = None\<rparr>
                 in [\<lparr>fd_name = dget (fn_name function_data) '''',
                      fd_description = dget (fn_description function_data) '''',
                      fd_parameters =
                        convert_enum_values str_of (dget (fn_parameters function_data) (JObject []))\<rparr>])
              else []) openai_tools)
      in if function_declarations \<noteq> [] then [\<lparr>functionDeclarations = function_declarations\<rparr>]
         else [])"

definition o2g_convert_request ::
  "(string \<Rightarrow> json option) \<Rightarrow> (openai_content \<Rightarrow> string) \<Rightarrow> (json \<Rightarrow> string)
     \<Rightarrow> openai_request \<Rightarrow> error + gemini_request" where
  "o2g_convert_request json_loads str_of_content str_of openai_request =
     (let messages = dget (or_messages openai_request) [];
          tools_in = dget (or_tools openai_request) [];
          converted = o2g_convert_messages json_loads str_of_content messages
      in fix_request_issues
           \<lparr>contents = fst converted,
            systemInstruction = snd converted,
            tools = (if tools_in \<noteq> [] then
                       (let gemini_tools = o2g_convert_tools str_of tools_in
                        in if gemini_tools \<noteq> [] then Some gemini_tools else None)
                     else None)\<rparr>)"

section \<open>ClaudeToOpenAIConverter\<close>

definition truthy :: "string option \<Rightarrow> bool" where
  "truthy x = (x \<noteq> None \<and> x \<noteq> Some [])"

text \<open>
  The map from \<open>tool_use\<close> id to function name, built by the first loop of
  \<open>convert_messages\<close> over the assistant messages whose content is a list.
\<close>

fun c2o_record_tool_uses ::
  "claude_item list \<Rightarrow> (string \<rightharpoonup> string) \<Rightarrow> (string \<rightharpoonup> string)" where
  "c2o_record_tool_uses [] m = m"
| "c2o_record_tool_uses (CToolUse tool_use_id function_name inp # rest) m =
     c2o_record_tool_uses rest
       (if truthy tool_use_id \<and> truthy function_name
        then m(the tool_use_id \<mapsto> the function_name) else m)"
| "c2o_record_tool_uses (item # rest) m = c2o_record_tool_uses rest m"

fun c2o_tool_use_map ::
  "claude_message list \<Rightarrow> (string \<rightharpoonup> string) \<Rightarrow> (string \<rightharpoonup> string)" where
  "c2o_tool_use_map [] m = m"
| "c2o_tool_use_map (message # rest) m =
     c2o_tool_use_map rest
       (if c_role message = Some ''assistant'' then
          (case c_content message of
             Some (CList items) \<Rightarrow> c2o_record_tool_uses items m
           | _ \<Rightarrow> m)
        else m)"

text \<open>One item of a content list: the OpenAI content parts it appends.\<close>

fun c2o_convert_item :: "claude_item \<Rightarrow> openai_item list" where
  "c2o_convert_item (CStrItem s) = [OText (Some s)]"
| "c2o_convert_item (CText t) = [OText (Some (dget t ''''))]"
| "c2o_convert_item (CImage src) =
     (let source = dget src \<lparr>src_type = None, src_media_type = None, src_data = None, src_url = None\<rparr>
      in if src_type source = Some ''base64'' then
           [OImageUrl (Some \<lparr>iu_url = Some (''data:'' @ dget (src_media_type source) ''image/jpeg''
                                             @ '';base64,'' @ dget (src_data source) '''')\<rparr>)]
         else if src_type source = Some ''url'' then
           [OImageUrl (Some \<lparr>iu_url = Some (dget (src_url source) '''')\<rparr>)]
         else [])"
| "c2o_convert_item (CToolUse i n inp) = []"
| "c2o_convert_item (CToolResult i c) = []"
| "c2o_convert_item COtherItem = []"

text \<open>The comprehensions that select the \<open>tool_use\<close>, \<open>tool_result\<close> and \<open>text\<close> dicts of a list.\<close>

definition tool_uses_of :: "claude_item list \<Rightarrow> (string option \<times> string option \<times> json option) list" where
  "tool_uses_of items =
     concat (map (\<lambda>item. case item of CToolUse i n inp \<Rightarrow> [(i, n, inp)] | _ \<Rightarrow> []) items)"

definition tool_results_of :: "claude_item list \<Rightarrow> (string option \<times> json option) list" where
  "tool_results_of items =
     concat (map (\<lambda>item. case item of CToolResult i c \<Rightarrow> [(i, c)] | _ \<Rightarrow> []) items)"

definition texts_of :: "claude_item list \<Rightarrow> string list" where
  "texts_of items =
     concat (map (\<lambda>item. case item of CText t \<Rightarrow> [dget t ''''] | _ \<Rightarrow> []) items)"

definition content_of_json :: "json \<Rightarrow> openai_content" where
  "content_of_json v = (case v of JStr s \<Rightarrow> OStr s | _ \<Rightarrow> OOther v)"

text \<open>
  The message written for one \<open>tool_use\<close> dict and for one \<open>tool_result\<close> dict.
  \<open>json.dumps\<close> is a parameter.
\<close>

definition c2o_tool_call ::
  "(json \<Rightarrow> string) \<Rightarrow> string option \<times> string option \<times> json option \<Rightarrow> openai_tool_call" where
  "c2o_tool_call json_dumps tool_use =
     (case tool_use of (i, n, inp) \<Rightarrow>
        \<lparr>tc_id = Some (dget i ''''),
         tc_type = Some ''function'',
         tc_function =
           Some \<lparr>f_name = Some (dget n ''''),
                 f_arguments = Some (JStr (json_dumps (dget inp (JObject []))))\<rparr>\<rparr>)"

definition c2o_tool_call_message ::
  "(json \<Rightarrow> string) \<Rightarrow> string \<Rightarrow> string option \<times> string option \<times> json option \<Rightarrow> openai_message" where
  "c2o_tool_call_message json_dumps text_content tool_use =
     \<lparr>o_role = Some ''assistant'',
      o_content = Some (if text_content \<noteq> [] then OStr text_content else OOther JNull),
      o_tool_calls = Some [c2o_tool_call json_dumps tool_use],
      o_tool_call_id = None,
      o_name = None\<rparr>"

definition c2o_tool_message ::
  "(string \<rightharpoonup> string) \<Rightarrow> string option \<times> json option \<Rightarrow> openai_message" where
  "c2o_tool_message tool_use_map tool_result =
     (case tool_result of (i, c) \<Rightarrow>
        (let content_str = dget c (JStr '''');
             tool_use_id = dget i '''';
             tool_name = dget (tool_use_map tool_use_id) ''unknown''
         in \<lparr>o_role = Some ''tool'',
             o_content = Some (content_of_json content_str),
             o_tool_calls = None,
             o_tool_call_id = Some tool_use_id,
             o_name = Some tool_name\<rparr>))"

text \<open>The body of the second loop of \<open>convert_messages\<close>: the messages one message appends.\<close>

definition c2o_convert_message ::
  "(json \<Rightarrow> string) \<Rightarrow> (claude_content \<Rightarrow> string) \<Rightarrow> (string \<rightharpoonup> string)
     \<Rightarrow> claude_message \<Rightarrow> openai_message list" where
  "c2o_convert_message json_dumps str_of tool_use_map message =
     (let r = dget (c_role message) '''';
          content = dget (c_content message) (CStr '''');
          openai_content =
            (case content of
               CStr s \<Rightarrow> OStr s
             | CList items \<Rightarrow>
                 (let openai_content_parts = concat (map c2o_convert_item items)
                  in if openai_content_parts \<noteq> [] then OList openai_content_parts
                     else OStr (str_of content))
             | COther v \<Rightarrow> OStr (str_of content));
          regular = [\<lparr>o_role = Some r, o_content = Some openai_content, o_tool_calls = None,
                      o_tool_call_id = None, o_name = None\<rparr>]
      in case content of
           CList items \<Rightarrow>
             if tool_uses_of items \<noteq> [] \<and> r = ''assistant'' then
               map (c2o_tool_call_message json_dumps (join '' '' (texts_of items)))
                 (tool_uses_of items)
             else if tool_results_of items \<noteq> [] then
               map (c2o_tool_message tool_use_map) (tool_results_of items)
             else regular
         | _ \<Rightarrow> regular)"

fun c2o_convert_messages_loop ::
  "(json \<Rightarrow> string) \<Rightarrow> (claude_content \<Rightarrow> string) \<Rightarrow> (string \<rightharpoonup> string)
     \<Rightarrow> claude_message list \<Rightarrow> openai_message list \<Rightarrow> openai_message list" where
  "c2o_convert_messages_loop json_dumps str_of m [] openai_messages = openai_messages"
| "c2o_convert_messages_loop json_dumps str_of m (message # rest) openai_messages =
     c2o_convert_messages_loop json_dumps str_of m rest
       (openai_messages @ c2o_convert_message json_dumps str_of m message)"

definition c2o_convert_messages ::
  "(json \<Rightarrow> string) \<Rightarrow> (claude_content \<Rightarrow> string) \<Rightarrow> claude_message list
     \<Rightarrow> openai_message list" where
  "c2o_convert_messages json_dumps str_of claude_messages =
     (let tool_use_map = c2o_tool_use_map claude_messages Map.empty
      in c2o_convert_messages_loop json_dumps str_of tool_use_map claude_messages [])"

definition c2o_convert_tools :: "claude_tool list \<Rightarrow> openai_tool list" where
  "c2o_convert_tools claude_tools =
     map (\<lambda>tool. \<lparr>ot_type = Some ''function'',
                  ot_function = Some \<lparr>fn_name = Some (dget (t_name tool) ''''),
                                      fn_description = Some (dget (t_description tool) ''''),
                                      fn_parameters = Some (dget (t_input_schema tool) (JObject []))\<rparr>\<rparr>)
       claude_tools"

section \<open>Notions of the specification\<close>

text \<open>
  The legacy convention for tool results: the content holds, at position \<open>k\<close>, the text
  \<open>Observation of Tool\<close> followed by the non-empty name \<open>n\<close> between backticks.
\<close>

definition occurs_at :: "string \<Rightarrow> nat \<Rightarrow> string \<Rightarrow> bool" where
  "occurs_at s k n =
     (n \<noteq> [] \<and> backtick \<notin> set n \<and>
      (\<exists>rest. drop k s = observation_prefix @ n @ [backtick] @ rest))"

text \<open>
  The correlation map as the specification words it: every call encountered, in the order of
  the scan, is recorded as a pair of call identifier and name, and a later pair for the same
  identifier replaces the earlier one.
\<close>

definition last_recorded :: "(string \<times> string) list \<Rightarrow> (string \<rightharpoonup> string)" where
  "last_recorded calls = map_of (rev calls)"

definition o2g_calls_of :: "openai_tool_call list \<Rightarrow> (string \<times> string) list" where
  "o2g_calls_of tcs =
     concat (map (\<lambda>tc.
       if dget (tc_id tc) '''' \<noteq> [] \<and>
          dget (f_name (dget (tc_function tc) \<lparr>f_name = None, f_arguments = None\<rparr>)) '''' \<noteq> []
       then [(dget (tc_id tc) '''',
              dget (f_name (dget (tc_function tc) \<lparr>f_name = None, f_arguments = None\<rparr>)) '''')]
       else []) tcs)"

definition o2g_calls :: "openai_message list \<Rightarrow> (string \<times> string) list" where
  "o2g_calls ms = concat (map (\<lambda>m. o2g_calls_of (dget (o_tool_calls m) [])) ms)"

definition c2o_calls_of :: "claude_item list \<Rightarrow> (string \<times> string) list" where
  "c2o_calls_of items =
     concat (map (\<lambda>item. case item of
        CToolUse i n inp \<Rightarrow> if truthy i \<and> truthy n then [(the i, the n)] else []
      | _ \<Rightarrow> []) items)"

definition c2o_calls :: "claude_message list \<Rightarrow> (string \<times> string) list" where
  "c2o_calls ms =
     concat (map (\<lambda>m.
       if c_role m = Some ''assistant'' then
         (case c_content m of Some (CList items) \<Rightarrow> c2o_calls_of items | _ \<Rightarrow> [])
       else []) ms)"

text \<open>
  Turn-count conservation: the \<open>tool_use\<close> blocks of the assistant turns, in source order,
  and the output messages that carry a \<open>tool_calls\<close> key.
\<close>

definition assistant_tool_uses ::
  "claude_message \<Rightarrow> (string option \<times> string option \<times> json option) list" where
  "assistant_tool_uses m =
     (if c_role m = Some ''assistant'' then
        (case c_content m of Some (CList items) \<Rightarrow> tool_uses_of items | _ \<Rightarrow> [])
      else [])"

definition tool_call_turns :: "openai_message list \<Rightarrow> openai_message list" where
  "tool_call_turns out = filter (\<lambda>x. o_tool_calls x \<noteq> None) out"

text \<open>
  Tool declarations: the schema of an OpenAI tool as \<open>convert_tools\<close> reads it, the tools it
  converts, and the schemas in which no object has an \<open>enum\<close> key.
\<close>

fun no_enum :: "json \<Rightarrow> bool" where
  "no_enum (JObject d) = (map_of d ''enum'' = None \<and> list_all (\<lambda>kv. no_enum (snd kv)) d)"
| "no_enum (JArray xs) = list_all no_enum xs"
| "no_enum v = True"

definition is_function_tool :: "openai_tool \<Rightarrow> bool" where
  "is_function_tool tool = (ot_type tool = Some ''function'')"

definition openai_schema_of :: "openai_tool \<Rightarrow> json" where
  "openai_schema_of tool =
     dget (fn_parameters (dget (ot_function tool)
             \<lparr>fn_name = None, fn_description = None, fn_parameters = None\<rparr>)) (JObject [])"

text \<open>A message whose content is a string (or is absent, which reads as the empty string).\<close>

definition string_content :: "claude_message \<Rightarrow> bool" where
  "string_content m = (case dget (c_content m) (CStr []) of CStr s \<Rightarrow> True | _ \<Rightarrow> False)"

section \<open>The translation loops\<close>

lemma o2g_loop_append:
  "o2g_convert_messages_loop jl so tm (xs @ ys) st =
   o2g_convert_messages_loop jl so tm ys (o2g_convert_messages_loop jl so tm xs st)"
  by (induction xs arbitrary: st) auto

lemma c2o_loop_append:
  "c2o_convert_messages_loop jd so tm (xs @ ys) acc =
   c2o_convert_messages_loop jd so tm ys (c2o_convert_messages_loop jd so tm xs acc)"
  by (induction xs arbitrary: acc) auto

lemma c2o_loop_concat:
  "c2o_convert_messages_loop jd so tm ms acc = acc @ concat (map (c2o_convert_message jd so tm) ms)"
  by (induction ms arbitrary: acc) auto

lemma map_err_append:
  "map_err f (xs @ ys) =
     (case map_err f xs of
        Inl e \<Rightarrow> Inl e
      | Inr a \<Rightarrow> (case map_err f ys of Inl e \<Rightarrow> Inl e | Inr b \<Rightarrow> Inr (a @ b)))"
  by (induction xs) (auto split: sum.splits)

lemma c2g_convert_items_map_err:
  "c2g_convert_items items ps =
     (case map_err c2g_convert_item items of
        Inl e \<Rightarrow> Inl e
      | Inr pss \<Rightarrow> Inr (ps @ concat pss))"
  by (induction items arbitrary: ps) (auto split: sum.splits)

lemma c2g_loop_map_err:
  "c2g_convert_messages_loop str_of ms acc =
     (case map_err (c2g_convert_message str_of) ms of
        Inl e \<Rightarrow> Inl e
      | Inr css \<Rightarrow> Inr (acc @ concat css))"
  by (induction ms arbitrary: acc) (auto split: sum.splits)

lemma c2g_convert_messages_split:
  assumes "c2g_convert_messages str_of pre = Inr cs1"
    and "c2g_convert_message str_of m = Inr new"
    and "c2g_convert_messages str_of post = Inr cs2"
  shows "c2g_convert_messages str_of (pre @ m # post) = Inr (cs1 @ new @ cs2)"
proof -
  from assms(1) obtain a where a: "map_err (c2g_convert_message str_of) pre = Inr a"
    and a': "cs1 = concat a"
    by (auto simp: c2g_convert_messages_def c2g_loop_map_err split: sum.splits)
  from assms(3) obtain b where b: "map_err (c2g_convert_message str_of) post = Inr b"
    and b': "cs2 = concat b"
    by (auto simp: c2g_convert_messages_def c2g_loop_map_err split: sum.splits)
  have "map_err (c2g_convert_message str_of) (pre @ m # post) = Inr (a @ new # b)"
    using a b assms(2) by (simp add: map_err_append)
  then show ?thesis
    by (simp add: c2g_convert_messages_def c2g_loop_map_err a' b')
qed


section \<open>Legacy-pattern recovery of the function name (Claude to Gemini)\<close>

lemma startswith_iff: "startswith s p \<longleftrightarrow> (\<exists>r. s = p @ r)"
  unfolding startswith_def
  by (metis append_eq_conv_conj append_take_drop_id)

lemma takeWhile_backtick:
  "backtick \<notin> set n \<Longrightarrow> takeWhile (\<lambda>c. c \<noteq> backtick) (n @ backtick # rest) = n"
  by (induction n) auto

lemma tool_pattern_here_Some:
  "tool_pattern_here s = Some n \<longleftrightarrow> occurs_at s 0 n"
proof
  assume h: "tool_pattern_here s = Some n"
  then obtain r where r: "s = observation_prefix @ r"
    by (auto simp: tool_pattern_here_def startswith_iff split: if_splits)
  from h r have n: "n = takeWhile (\<lambda>c. c \<noteq> backtick) r" "n \<noteq> []" "length n < length r"
    by (auto simp: tool_pattern_here_def Let_def split: if_splits)
  have "r = n @ dropWhile (\<lambda>c. c \<noteq> backtick) r" using n by simp
  moreover have "dropWhile (\<lambda>c. c \<noteq> backtick) r \<noteq> []"
    using n by (metis append_Nil2 calculation less_irrefl)
  then have "hd (dropWhile (\<lambda>c. c \<noteq> backtick) r) = backtick"
    using hd_dropWhile[of "\<lambda>c. c \<noteq> backtick" r] by auto
  ultimately obtain rest where "r = n @ [backtick] @ rest"
    by (metis \<open>dropWhile (\<lambda>c. c \<noteq> backtick) r \<noteq> []\<close> append_Cons append_Nil list.collapse)
  moreover have "backtick \<notin> set n" using n(1) by (auto dest: set_takeWhileD)
  ultimately show "occurs_at s 0 n" using r n by (auto simp: occurs_at_def)
next
  assume "occurs_at s 0 n"
  then obtain rest where s: "s = observation_prefix @ n @ [backtick] @ rest" and n: "n \<noteq> []" "backtick \<notin> set n"
    by (auto simp: occurs_at_def)
  have "startswith s observation_prefix" using s by (auto simp: startswith_iff)
  then show "tool_pattern_here s = Some n"
    using s n by (simp add: tool_pattern_here_def Let_def takeWhile_backtick)
qed

lemma tool_pattern_here_None:
  "tool_pattern_here s = None \<longleftrightarrow> (\<forall>n. \<not> occurs_at s 0 n)"
  by (metis tool_pattern_here_Some not_Some_eq)

lemma occurs_at_Suc: "occurs_at (c # cs) (Suc k) n = occurs_at cs k n"
  by (simp add: occurs_at_def)

lemma occurs_at_Nil: "\<not> occurs_at [] k n"
  by (simp add: occurs_at_def observation_prefix_def)

lemma re_search_tool_None:
  "re_search_tool s = None \<longleftrightarrow> (\<forall>k n. \<not> occurs_at s k n)"
proof (induction s)
  case Nil
  then show ?case by (simp add: occurs_at_Nil)
next
  case (Cons c cs)
  show ?case
  proof
    assume h: "re_search_tool (c # cs) = None"
    then have a: "tool_pattern_here (c # cs) = None" and b: "re_search_tool cs = None"
      by (auto split: option.splits)
    show "\<forall>k n. \<not> occurs_at (c # cs) k n"
    proof (intro allI)
      fix k n show "\<not> occurs_at (c # cs) k n"
      proof (cases k)
        case 0 then show ?thesis using a tool_pattern_here_None by blast
      next
        case (Suc j) then show ?thesis using b Cons.IH occurs_at_Suc by blast
      qed
    qed
  next
    assume h: "\<forall>k n. \<not> occurs_at (c # cs) k n"
    then have "tool_pattern_here (c # cs) = None" using tool_pattern_here_None by blast
    moreover have "\<forall>k n. \<not> occurs_at cs k n" using h occurs_at_Suc by blast
    ultimately show "re_search_tool (c # cs) = None" using Cons.IH by simp
  qed
qed

lemma re_search_tool_leftmost:
  "occurs_at s k n \<Longrightarrow> (\<forall>j<k. \<forall>n'. \<not> occurs_at s j n') \<Longrightarrow> re_search_tool s = Some n"
proof (induction s arbitrary: k)
  case Nil
  then show ?case by (simp add: occurs_at_Nil)
next
  case (Cons c cs)
  show ?case
  proof (cases k)
    case 0
    then show ?thesis using Cons.prems(1) tool_pattern_here_Some[of "c # cs" n] by simp
  next
    case (Suc j)
    then have "tool_pattern_here (c # cs) = None"
      using Cons.prems(2) tool_pattern_here_None by blast
    moreover have "occurs_at cs j n" using Cons.prems(1) Suc occurs_at_Suc by blast
    moreover have "\<forall>i<j. \<forall>n'. \<not> occurs_at cs i n'"
      using Cons.prems(2) Suc occurs_at_Suc by (metis Suc_less_eq)
    ultimately show ?thesis using Cons.IH by simp
  qed
qed

lemma c2g_tool_result_message:
  assumes "dget (c_role m) [] \<noteq> ''tool''" and "dget (c_role m) [] \<noteq> ''system''"
    and "c_content m = Some (CList (before @ CToolResult i (Some (JStr s)) # after))"
    and "map_err c2g_convert_item before = Inr bs"
    and "map_err c2g_convert_item after = Inr es"
  shows "c2g_convert_message str_of m =
     Inr [\<lparr>role = (if dget (c_role m) [] = ''assistant'' then ''model'' else ''user''),
           parts = concat bs @
             [FunctionResponse (case re_search_tool s of Some n \<Rightarrow> n | None \<Rightarrow> ''unknown'') s]
             @ concat es\<rparr>]"
proof -
  have "map_err c2g_convert_item (before @ CToolResult i (Some (JStr s)) # after) =
      Inr (bs @ [FunctionResponse (case re_search_tool s of Some n \<Rightarrow> n | None \<Rightarrow> ''unknown'') s] # es)"
    using assms(4,5) by (simp add: map_err_append dget_def)
  then have "c2g_content_parts str_of (CList (before @ CToolResult i (Some (JStr s)) # after)) =
      Inr (concat bs @
             [FunctionResponse (case re_search_tool s of Some n \<Rightarrow> n | None \<Rightarrow> ''unknown'') s]
             @ concat es)"
    by (simp add: c2g_content_parts_def c2g_convert_items_map_err)
  then show ?thesis
    using assms(1,2,3) by (simp add: c2g_convert_message_def Let_def dget_def)
qed

text \<open>
  C8: let a turn of \<open>ClaudeToGeminiConverter.convert_messages\<close> be translated item by item
  (its role is neither \<open>tool\<close> nor \<open>system\<close> and its content is a list), let one of its
  items be a \<open>tool_result\<close> block whose content is the string \<open>s\<close>, and let the other items of
  the turn and the other messages of the conversation be translated without an exception.
  If \<open>s\<close> holds the backtick pattern, the output conversation holds, at the place of that
  block, a \<open>functionResponse\<close> whose name is the backticked name of the leftmost occurrence;
  if \<open>s\<close> does not hold the pattern, the name is \<open>unknown\<close>.
\<close>

theorem C8_legacy_pattern_recovery:
  "dget (c_role m) [] \<noteq> ''tool'' \<and> dget (c_role m) [] \<noteq> ''system''
   \<and> c_content m = Some (CList (before @ CToolResult i (Some (JStr s)) # after))
   \<and> map_err c2g_convert_item before = Inr bs
   \<and> map_err c2g_convert_item after = Inr es
   \<and> c2g_convert_messages str_of pre = Inr cs1
   \<and> c2g_convert_messages str_of post = Inr cs2
   \<longrightarrow>
     (occurs_at s k n \<and> (\<forall>j<k. \<forall>n'. \<not> occurs_at s j n') \<longrightarrow>
        c2g_convert_messages str_of (pre @ m # post) =
          Inr (cs1 @
               [\<lparr>role = (if dget (c_role m) [] = ''assistant'' then ''model'' else ''user''),
                 parts = concat bs @ [FunctionResponse n s] @ concat es\<rparr>]
               @ cs2))
     \<and> ((\<forall>k n. \<not> occurs_at s k n) \<longrightarrow>
        c2g_convert_messages str_of (pre @ m # post) =
          Inr (cs1 @
               [\<lparr>role = (if dget (c_role m) [] = ''assistant'' then ''model'' else ''user''),
                 parts = concat bs @ [FunctionResponse ''unknown'' s] @ concat es\<rparr>]
               @ cs2))"
proof (intro impI conjI)
  assume h: "dget (c_role m) [] \<noteq> ''tool'' \<and> dget (c_role m) [] \<noteq> ''system''
   \<and> c_content m = Some (CList (before @ CToolResult i (Some (JStr s)) # after))
   \<and> map_err c2g_convert_item before = Inr bs
   \<and> map_err c2g_convert_item after = Inr es
   \<and> c2g_convert_messages str_of pre = Inr cs1
   \<and> c2g_convert_messages str_of post = Inr cs2"
  then have msg: "c2g_convert_message str_of m =
     Inr [\<lparr>role = (if dget (c_role m) [] = ''assistant'' then ''model'' else ''user''),
           parts = concat bs @
             [FunctionResponse (case re_search_tool s of Some n \<Rightarrow> n | None \<Rightarrow> ''unknown'') s]
             @ concat es\<rparr>]"
    using c2g_tool_result_message by blast
  from h have whole: "c2g_convert_messages str_of (pre @ m # post) =
      Inr (cs1 @
           [\<lparr>role = (if dget (c_role m) [] = ''assistant'' then ''model'' else ''user''),
             parts = concat bs @
               [FunctionResponse (case re_search_tool s of Some n \<Rightarrow> n | None \<Rightarrow> ''unknown'') s]
               @ concat es\<rparr>]
           @ cs2)"
    using c2g_convert_messages_split[OF _ msg] by blast
  {
    assume "occurs_at s k n \<and> (\<forall>j<k. \<forall>n'. \<not> occurs_at s j n')"
    then have "re_search_tool s = Some n" using re_search_tool_leftmost by blast
    with whole show "c2g_convert_messages str_of (pre @ m # post) =
          Inr (cs1 @
               [\<lparr>role = (if dget (c_role m) [] = ''assistant'' then ''model'' else ''user''),
                 parts = concat bs @ [FunctionResponse n s] @ concat es\<rparr>]
               @ cs2)"
      by simp
  }
  {
    assume "\<forall>k n. \<not> occurs_at s k n"
    then have "re_search_tool s = None" using re_search_tool_None by blast
    with whole show "c2g_convert_messages str_of (pre @ m # post) =
          Inr (cs1 @
               [\<lparr>role = (if dget (c_role m) [] = ''assistant'' then ''model'' else ''user''),
                 parts = concat bs @ [FunctionResponse ''unknown'' s] @ concat es\<rparr>]
               @ cs2)"
      by simp
  }
qed

lemma occurs_at_short: "length s < 22 \<Longrightarrow> \<not> occurs_at s k n"
proof
  assume a: "length s < 22" and b: "occurs_at s k n"
  then obtain rest where "drop k s = observation_prefix @ n @ [backtick] @ rest" and "n \<noteq> []"
    by (auto simp: occurs_at_def)
  then have "length (drop k s) = length (observation_prefix @ n @ [backtick] @ rest)" by simp
  then have "length (drop k s) \<ge> 22" using \<open>n \<noteq> []\<close>
    by (cases n) (auto simp: observation_prefix_def)
  then show False using a by simp
qed

theorem C8_legacy_pattern_recovery_witness:
  "\<forall>str_of.
     c2g_convert_messages str_of
       [\<lparr>c_role = Some ''user'', c_content = Some (CStr ''find it''), c_name = None\<rparr>,
        \<lparr>c_role = Some ''user'',
         c_content = Some (CList
           [CText (Some ''result:''),
            CToolResult (Some ''c1'')
              (Some (JStr (''Observation of Tool '' @ [backtick] @ ''search'' @ [backtick]
                           @ '': 3 hits'')))]),
         c_name = None\<rparr>,
        \<lparr>c_role = Some ''assistant'', c_content = Some (CStr ''done''), c_name = None\<rparr>]
     = Inr [\<lparr>role = ''user'', parts = [Text ''find it'']\<rparr>,
            \<lparr>role = ''user'',
             parts = [Text ''result:'',
                      FunctionResponse ''search''
                        (''Observation of Tool '' @ [backtick] @ ''search'' @ [backtick]
                         @ '': 3 hits'')]\<rparr>,
            \<lparr>role = ''model'', parts = [Text ''done'']\<rparr>]
   \<and> c2g_convert_messages str_of
       [\<lparr>c_role = Some ''user'',
         c_content = Some (CList [CToolResult (Some ''c1'') (Some (JStr ''3 hits''))]),
         c_name = None\<rparr>]
     = Inr [\<lparr>role = ''user'', parts = [FunctionResponse ''unknown'' ''3 hits'']\<rparr>]"
proof
  fix str_of :: "claude_content \<Rightarrow> string"
  let ?s = "''Observation of Tool '' @ [backtick] @ ''search'' @ [backtick] @ '': 3 hits''"
  let ?u = "\<lparr>c_role = Some ''user'', c_content = Some (CStr ''find it''), c_name = None\<rparr>"
  let ?m = "\<lparr>c_role = Some ''user'',
         c_content = Some (CList [CText (Some ''result:''), CToolResult (Some ''c1'') (Some (JStr ?s))]),
         c_name = None\<rparr>"
  let ?a = "\<lparr>c_role = Some ''assistant'', c_content = Some (CStr ''done''), c_name = None\<rparr>"
  let ?m2 = "\<lparr>c_role = Some ''user'',
         c_content = Some (CList [CToolResult (Some ''c1'') (Some (JStr ''3 hits''))]),
         c_name = None\<rparr>"
  have o: "occurs_at ?s 0 ''search'' \<and> (\<forall>j<0. \<forall>n'. \<not> occurs_at ?s j n')"
    by (simp add: occurs_at_def observation_prefix_def backtick_def)
  have h: "dget (c_role ?m) [] \<noteq> ''tool'' \<and> dget (c_role ?m) [] \<noteq> ''system''
     \<and> c_content ?m = Some (CList ([CText (Some ''result:'')] @ CToolResult (Some ''c1'') (Some (JStr ?s)) # []))
     \<and> map_err c2g_convert_item [CText (Some ''result:'')] = Inr [[Text ''result:'']]
     \<and> map_err c2g_convert_item [] = Inr []
     \<and> c2g_convert_messages str_of [?u] = Inr [\<lparr>role = ''user'', parts = [Text ''find it'']\<rparr>]
     \<and> c2g_convert_messages str_of [?a] = Inr [\<lparr>role = ''model'', parts = [Text ''done'']\<rparr>]"
    by (simp add: dget_def c2g_convert_messages_def c2g_convert_message_def c2g_content_parts_def)
  have 1: "c2g_convert_messages str_of [?u, ?m, ?a]
     = Inr [\<lparr>role = ''user'', parts = [Text ''find it'']\<rparr>,
            \<lparr>role = ''user'', parts = [Text ''result:'', FunctionResponse ''search'' ?s]\<rparr>,
            \<lparr>role = ''model'', parts = [Text ''done'']\<rparr>]"
    using C8_legacy_pattern_recovery[where m = ?m and before = "[CText (Some ''result:'')]"
        and after = "[]" and i = "Some ''c1''" and s = ?s and bs = "[[Text ''result:'']]"
        and es = "[]" and str_of = str_of and pre = "[?u]" and post = "[?a]"
        and ?cs1.0 = "[\<lparr>role = ''user'', parts = [Text ''find it'']\<rparr>]"
        and ?cs2.0 = "[\<lparr>role = ''model'', parts = [Text ''done'']\<rparr>]"
        and k = 0 and n = "''search''"] o h
    by (simp add: dget_def)
  have u: "\<forall>k n. \<not> occurs_at ''3 hits'' k n"
    using occurs_at_short[of "''3 hits''"] by simp
  have h2: "dget (c_role ?m2) [] \<noteq> ''tool'' \<and> dget (c_role ?m2) [] \<noteq> ''system''
     \<and> c_content ?m2 = Some (CList ([] @ CToolResult (Some ''c1'') (Some (JStr ''3 hits'')) # []))
     \<and> map_err c2g_convert_item [] = Inr []
     \<and> map_err c2g_convert_item [] = Inr []
     \<and> c2g_convert_messages str_of [] = Inr []
     \<and> c2g_convert_messages str_of [] = Inr []"
    by (simp add: dget_def c2g_convert_messages_def)
  have 2: "c2g_convert_messages str_of [?m2]
     = Inr [\<lparr>role = ''user'', parts = [FunctionResponse ''unknown'' ''3 hits'']\<rparr>]"
    using C8_legacy_pattern_recovery[where m = ?m2 and before = "[]"
        and after = "[]" and i = "Some ''c1''" and s = "''3 hits''" and bs = "[]"
        and es = "[]" and str_of = str_of and pre = "[]" and post = "[]"
        and ?cs1.0 = "[]" and ?cs2.0 = "[]" and k = 0 and n = "''x''"] u h2
    by (simp add: dget_def)
  from 1 2 show "c2g_convert_messages str_of [?u, ?m, ?a]
     = Inr [\<lparr>role = ''user'', parts = [Text ''find it'']\<rparr>,
            \<lparr>role = ''user'', parts = [Text ''result:'', FunctionResponse ''search'' ?s]\<rparr>,
            \<lparr>role = ''model'', parts = [Text ''done'']\<rparr>]
   \<and> c2g_convert_messages str_of [?m2]
     = Inr [\<lparr>role = ''user'', parts = [FunctionResponse ''unknown'' ''3 hits'']\<rparr>]"
    by (rule conjI)
qed


section \<open>The tool-call correlation map\<close>

lemma o2g_record_tool_calls_eq:
  "o2g_record_tool_calls tcs m = m ++ map_of (rev (o2g_calls_of tcs))"
proof (induction tcs arbitrary: m)
  case Nil
  then show ?case by (simp add: o2g_calls_of_def)
next
  case (Cons tc tcs)
  have c: "o2g_calls_of (tc # tcs) = o2g_calls_of [tc] @ o2g_calls_of tcs"
    by (simp add: o2g_calls_of_def)
  show ?case
    unfolding c rev_append map_of_append
    by (simp add: Cons.IH Let_def) (simp add: o2g_calls_of_def map_add_def fun_eq_iff split: option.splits)
qed

lemma o2g_tool_call_id_to_name_eq:
  "o2g_tool_call_id_to_name ms m = m ++ map_of (rev (o2g_calls ms))"
proof (induction ms arbitrary: m)
  case Nil
  then show ?case by (simp add: o2g_calls_def)
next
  case (Cons x xs)
  have c: "o2g_calls (x # xs) = o2g_calls_of (dget (o_tool_calls x) []) @ o2g_calls xs"
    by (simp add: o2g_calls_def)
  have e: "o2g_calls_of [] = []" by (simp add: o2g_calls_of_def)
  show ?case
    unfolding c rev_append map_of_append
    by (cases "o_tool_calls x") (simp_all add: Cons.IH dget_def o2g_record_tool_calls_eq e)
qed

lemma c2o_record_tool_uses_step:
  "c2o_record_tool_uses (x # xs) m = c2o_record_tool_uses xs (m ++ map_of (c2o_calls_of [x]))"
  by (cases x) (simp_all add: c2o_calls_of_def)

lemma c2o_record_tool_uses_eq:
  "c2o_record_tool_uses items m = m ++ map_of (rev (c2o_calls_of items))"
proof (induction items arbitrary: m)
  case Nil
  then show ?case by (simp add: c2o_calls_of_def)
next
  case (Cons x xs)
  have c: "c2o_calls_of (x # xs) = c2o_calls_of [x] @ c2o_calls_of xs"
    by (simp add: c2o_calls_of_def)
  have r: "map_of (rev (c2o_calls_of [x])) = map_of (c2o_calls_of [x])"
    by (cases x) (simp_all add: c2o_calls_of_def)
  show ?case
    unfolding c rev_append map_of_append c2o_record_tool_uses_step Cons.IH r
    by simp
qed

lemma c2o_tool_use_map_eq:
  "c2o_tool_use_map ms m = m ++ map_of (rev (c2o_calls ms))"
proof (induction ms arbitrary: m)
  case Nil
  then show ?case by (simp add: c2o_calls_def)
next
  case (Cons x xs)
  have c: "c2o_calls (x # xs) = c2o_calls [x] @ c2o_calls xs"
    by (simp add: c2o_calls_def)
  show ?case
    unfolding c rev_append map_of_append
    by (simp add: Cons.IH c2o_calls_def c2o_record_tool_uses_eq split: option.splits claude_content.splits)
qed


lemma last_recorded_last:
  "cid \<notin> fst ` set later \<Longrightarrow> last_recorded (earlier @ (cid, nm) # later) cid = Some nm"
proof -
  assume "cid \<notin> fst ` set later"
  then have "map_of (rev later) cid = None"
    by (simp add: map_of_eq_None_iff)
  then show ?thesis
    by (simp add: last_recorded_def map_add_def)
qed

text \<open>
  C6: the identifier-to-name map is built by one scan over all messages before any message
  is translated, and it holds for each identifier the name recorded last (the name of a
  call after which no call with the same identifier is recorded). A tool result
  with identifier \<open>cid\<close> and no name of its own is translated with the name the map holds
  for \<open>cid\<close>: with a call \<open>c1\<close> named \<open>lookup\<close> recorded last, the result carries
  \<open>lookup\<close>.
\<close>

theorem C6_correlation_resolution:
  "o2g_tool_call_id_to_name ms Map.empty = last_recorded (o2g_calls ms)
   \<and> c2o_tool_use_map cms Map.empty = last_recorded (c2o_calls cms)
   \<and> (cid' \<notin> fst ` set later
      \<longrightarrow> last_recorded (earlier @ (cid', nm') # later) cid' = Some nm')
   \<and> (dget (o_role m) '''' = ''tool'' \<and> (o_tool_calls m = None \<or> o_tool_calls m = Some [])
       \<and> dget (o_name m) '''' = [] \<and> dget (o_tool_call_id m) '''' = cid \<and> cid \<noteq> []
       \<and> last_recorded (o2g_calls (pre @ m # post)) cid = Some nm
      \<longrightarrow> o2g_convert_messages json_loads str_of (pre @ m # post) =
          (let tm = last_recorded (o2g_calls (pre @ m # post));
               st = o2g_convert_messages_loop json_loads str_of tm pre ([], None)
           in o2g_convert_messages_loop json_loads str_of tm post
                (fst st @ [\<lparr>role = ''user'',
                            parts = [FunctionResponse nm
                                       (o_str str_of (dget (o_content m) (OStr '''')))]\<rparr>],
                 snd st)))
   \<and> (c_content cm = Some (CList items)
       \<and> (tool_uses_of items = [] \<or> dget (c_role cm) [] \<noteq> ''assistant'')
       \<and> tool_results_of items \<noteq> []
       \<and> last_recorded (c2o_calls (cpre @ cm # cpost)) cid = Some nm
      \<longrightarrow> c2o_convert_messages json_dumps str_of' (cpre @ cm # cpost) =
          (let tm = last_recorded (c2o_calls (cpre @ cm # cpost))
           in c2o_convert_messages_loop json_dumps str_of' tm cpost
                (c2o_convert_messages_loop json_dumps str_of' tm cpre [] @
                 map (c2o_tool_message tm) (tool_results_of items)))
        \<and> c2o_tool_message (last_recorded (c2o_calls (cpre @ cm # cpost))) (Some cid, c) =
            \<lparr>o_role = Some ''tool'',
             o_content = Some (content_of_json (dget c (JStr []))),
             o_tool_calls = None,
             o_tool_call_id = Some cid,
             o_name = Some nm\<rparr>)"
proof (intro conjI impI)
  show "o2g_tool_call_id_to_name ms Map.empty = last_recorded (o2g_calls ms)"
    by (simp add: o2g_tool_call_id_to_name_eq last_recorded_def)
  show "c2o_tool_use_map cms Map.empty = last_recorded (c2o_calls cms)"
    by (simp add: c2o_tool_use_map_eq last_recorded_def)
next
  assume "cid' \<notin> fst ` set later"
  then show "last_recorded (earlier @ (cid', nm') # later) cid' = Some nm'"
    by (rule last_recorded_last)
next
  let ?ms = "pre @ m # post"
  let ?tm = "last_recorded (o2g_calls ?ms)"
  assume h: "dget (o_role m) '''' = ''tool'' \<and> (o_tool_calls m = None \<or> o_tool_calls m = Some [])
       \<and> dget (o_name m) '''' = [] \<and> dget (o_tool_call_id m) '''' = cid \<and> cid \<noteq> []
       \<and> last_recorded (o2g_calls ?ms) cid = Some nm"
  have tm: "o2g_tool_call_id_to_name ?ms Map.empty = ?tm"
    by (simp add: o2g_tool_call_id_to_name_eq last_recorded_def)
  have step: "o2g_convert_message json_loads str_of ?tm m (cs, si) =
      (cs @ [\<lparr>role = ''user'',
              parts = [FunctionResponse nm (o_str str_of (dget (o_content m) (OStr '''')))]\<rparr>], si)"
    for cs si
    using h by (auto simp: o2g_convert_message_def Let_def dget_def)
  show "o2g_convert_messages json_loads str_of ?ms =
          (let tm = ?tm;
               st = o2g_convert_messages_loop json_loads str_of tm pre ([], None)
           in o2g_convert_messages_loop json_loads str_of tm post
                (fst st @ [\<lparr>role = ''user'',
                            parts = [FunctionResponse nm
                                       (o_str str_of (dget (o_content m) (OStr '''')))]\<rparr>],
                 snd st))"
    unfolding o2g_convert_messages_def tm Let_def o2g_loop_append
    using step[of "fst (o2g_convert_messages_loop json_loads str_of ?tm pre ([], None))"
                  "snd (o2g_convert_messages_loop json_loads str_of ?tm pre ([], None))"]
    by simp
next
  let ?ms = "cpre @ cm # cpost"
  let ?tm = "last_recorded (c2o_calls ?ms)"
  assume h: "c_content cm = Some (CList items)
       \<and> (tool_uses_of items = [] \<or> dget (c_role cm) [] \<noteq> ''assistant'')
       \<and> tool_results_of items \<noteq> []
       \<and> last_recorded (c2o_calls ?ms) cid = Some nm"
  have tm: "c2o_tool_use_map ?ms Map.empty = ?tm"
    by (simp add: c2o_tool_use_map_eq last_recorded_def)
  have step: "c2o_convert_message json_dumps str_of' ?tm cm =
      map (c2o_tool_message ?tm) (tool_results_of items)"
    using h by (auto simp: c2o_convert_message_def Let_def dget_def)
  show "c2o_convert_messages json_dumps str_of' ?ms =
          (let tm = ?tm
           in c2o_convert_messages_loop json_dumps str_of' tm cpost
                (c2o_convert_messages_loop json_dumps str_of' tm cpre [] @
                 map (c2o_tool_message tm) (tool_results_of items)))"
    unfolding c2o_convert_messages_def tm Let_def c2o_loop_append
    using step by simp
  show "c2o_tool_message ?tm (Some cid, c) =
            \<lparr>o_role = Some ''tool'',
             o_content = Some (content_of_json (dget c (JStr []))),
             o_tool_calls = None,
             o_tool_call_id = Some cid,
             o_name = Some nm\<rparr>"
    using h by (simp add: c2o_tool_message_def dget_def)
qed

theorem C6_correlation_resolution_witness:
  "\<forall>json_loads str_of json_dumps str_of'.
     o2g_convert_messages json_loads str_of
       [\<lparr>o_role = Some ''assistant'', o_content = None,
         o_tool_calls = Some [\<lparr>tc_id = Some ''c1'', tc_type = Some ''function'',
            tc_function = Some \<lparr>f_name = Some ''search'', f_arguments = Some (JObject [])\<rparr>\<rparr>],
         o_tool_call_id = None, o_name = None\<rparr>,
        \<lparr>o_role = Some ''assistant'', o_content = None,
         o_tool_calls = Some [\<lparr>tc_id = Some ''c1'', tc_type = Some ''function'',
            tc_function = Some \<lparr>f_name = Some ''lookup'', f_arguments = Some (JObject [])\<rparr>\<rparr>],
         o_tool_call_id = None, o_name = None\<rparr>,
        \<lparr>o_role = Some ''tool'', o_content = Some (OStr ''42''), o_tool_calls = None,
         o_tool_call_id = Some ''c1'', o_name = None\<rparr>]
     = ([\<lparr>role = ''model'', parts = [FunctionCall ''search'' (JObject [])]\<rparr>,
         \<lparr>role = ''model'', parts = [FunctionCall ''lookup'' (JObject [])]\<rparr>,
         \<lparr>role = ''user'', parts = [FunctionResponse ''lookup'' ''42'']\<rparr>], None)
   \<and> c2o_convert_messages json_dumps str_of'
       [\<lparr>c_role = Some ''assistant'',
         c_content = Some (CList [CToolUse (Some ''c1'') (Some ''lookup'') (Some (JObject []))]),
         c_name = None\<rparr>,
        \<lparr>c_role = Some ''user'',
         c_content = Some (CList [CToolResult (Some ''c1'') (Some (JStr ''42''))]),
         c_name = None\<rparr>]
     = [\<lparr>o_role = Some ''assistant'', o_content = Some (OOther JNull),
          o_tool_calls = Some [\<lparr>tc_id = Some ''c1'', tc_type = Some ''function'',
             tc_function = Some \<lparr>f_name = Some ''lookup'',
                                   f_arguments = Some (JStr (json_dumps (JObject [])))\<rparr>\<rparr>],
          o_tool_call_id = None, o_name = None\<rparr>,
        \<lparr>o_role = Some ''tool'', o_content = Some (OStr ''42''), o_tool_calls = None,
          o_tool_call_id = Some ''c1'', o_name = Some ''lookup''\<rparr>]
   \<and> last_recorded [(''c1'', ''search''), (''c1'', ''lookup'')] ''c1'' = Some ''lookup''"
proof (intro allI)
  fix json_loads :: "string \<Rightarrow> json option" and str_of :: "openai_content \<Rightarrow> string"
    and json_dumps :: "json \<Rightarrow> string" and str_of' :: "claude_content \<Rightarrow> string"
  let ?a1 = "\<lparr>o_role = Some ''assistant'', o_content = None,
         o_tool_calls = Some [\<lparr>tc_id = Some ''c1'', tc_type = Some ''function'',
            tc_function = Some \<lparr>f_name = Some ''search'', f_arguments = Some (JObject [])\<rparr>\<rparr>],
         o_tool_call_id = None, o_name = None\<rparr>"
  let ?a2 = "\<lparr>o_role = Some ''assistant'', o_content = None,
         o_tool_calls = Some [\<lparr>tc_id = Some ''c1'', tc_type = Some ''function'',
            tc_function = Some \<lparr>f_name = Some ''lookup'', f_arguments = Some (JObject [])\<rparr>\<rparr>],
         o_tool_call_id = None, o_name = None\<rparr>"
  let ?t = "\<lparr>o_role = Some ''tool'', o_content = Some (OStr ''42''), o_tool_calls = None,
         o_tool_call_id = Some ''c1'', o_name = None\<rparr>"
  let ?ca = "\<lparr>c_role = Some ''assistant'',
         c_content = Some (CList [CToolUse (Some ''c1'') (Some ''lookup'') (Some (JObject []))]),
         c_name = None\<rparr>"
  let ?cu = "\<lparr>c_role = Some ''user'',
         c_content = Some (CList [CToolResult (Some ''c1'') (Some (JStr ''42''))]),
         c_name = None\<rparr>"
  note t = C6_correlation_resolution[where ms = "[?a1, ?a2, ?t]" and cms = "[?ca, ?cu]"
      and m = ?t and cid = "''c1''" and pre = "[?a1, ?a2]" and post = "[]" and nm = "''lookup''"
      and json_loads = json_loads and str_of = str_of and cm = ?cu
      and items = "[CToolResult (Some ''c1'') (Some (JStr ''42''))]"
      and c = "Some (JStr ''42'')" and cpre = "[?ca]" and cpost = "[]"
      and json_dumps = json_dumps and str_of' = str_of']
  have h1: "dget (o_role ?t) '''' = ''tool'' \<and> (o_tool_calls ?t = None \<or> o_tool_calls ?t = Some [])
       \<and> dget (o_name ?t) '''' = [] \<and> dget (o_tool_call_id ?t) '''' = ''c1'' \<and> ''c1'' \<noteq> []
       \<and> last_recorded (o2g_calls ([?a1, ?a2] @ ?t # [])) ''c1'' = Some ''lookup''"
    by (simp add: dget_def last_recorded_def o2g_calls_def o2g_calls_of_def)
  have h2: "c_content ?cu = Some (CList [CToolResult (Some ''c1'') (Some (JStr ''42''))])
       \<and> (tool_uses_of [CToolResult (Some ''c1'') (Some (JStr ''42''))] = []
            \<or> dget (c_role ?cu) '''' \<noteq> ''assistant'')
       \<and> tool_results_of [CToolResult (Some ''c1'') (Some (JStr ''42''))] \<noteq> []
       \<and> last_recorded (c2o_calls ([?ca] @ ?cu # [])) ''c1'' = Some ''lookup''"
    by (simp add: dget_def last_recorded_def c2o_calls_def c2o_calls_of_def tool_uses_of_def
        tool_results_of_def truthy_def)
  have e3: "last_recorded [(''c1'', ''search''), (''c1'', ''lookup'')] ''c1'' = Some ''lookup''"
    using t[where cid' = "''c1''" and later = "[]" and earlier = "[(''c1'', ''search'')]"
        and nm' = "''lookup''"]
    by simp
  have e1: "o2g_convert_messages json_loads str_of [?a1, ?a2, ?t]
     = ([\<lparr>role = ''model'', parts = [FunctionCall ''search'' (JObject [])]\<rparr>,
         \<lparr>role = ''model'', parts = [FunctionCall ''lookup'' (JObject [])]\<rparr>,
         \<lparr>role = ''user'', parts = [FunctionResponse ''lookup'' ''42'']\<rparr>], None)"
    using t h1
    by (simp add: Let_def o2g_convert_message_def o2g_function_call_def dget_def o_str_def)
  have e2: "c2o_convert_messages json_dumps str_of' [?ca, ?cu]
     = [\<lparr>o_role = Some ''assistant'', o_content = Some (OOther JNull),
          o_tool_calls = Some [\<lparr>tc_id = Some ''c1'', tc_type = Some ''function'',
             tc_function = Some \<lparr>f_name = Some ''lookup'',
                                   f_arguments = Some (JStr (json_dumps (JObject [])))\<rparr>\<rparr>],
          o_tool_call_id = None, o_name = None\<rparr>,
        \<lparr>o_role = Some ''tool'', o_content = Some (OStr ''42''), o_tool_calls = None,
          o_tool_call_id = Some ''c1'', o_name = Some ''lookup''\<rparr>]"
    using t h2
    by (simp add: Let_def c2o_convert_message_def c2o_tool_call_message_def c2o_tool_call_def
        dget_def tool_uses_of_def tool_results_of_def texts_of_def content_of_json_def)
  show "o2g_convert_messages json_loads str_of [?a1, ?a2, ?t]
     = ([\<lparr>role = ''model'', parts = [FunctionCall ''search'' (JObject [])]\<rparr>,
         \<lparr>role = ''model'', parts = [FunctionCall ''lookup'' (JObject [])]\<rparr>,
         \<lparr>role = ''user'', parts = [FunctionResponse ''lookup'' ''42'']\<rparr>], None)
   \<and> c2o_convert_messages json_dumps str_of' [?ca, ?cu]
     = [\<lparr>o_role = Some ''assistant'', o_content = Some (OOther JNull),
          o_tool_calls = Some [\<lparr>tc_id = Some ''c1'', tc_type = Some ''function'',
             tc_function = Some \<lparr>f_name = Some ''lookup'',
                                   f_arguments = Some (JStr (json_dumps (JObject [])))\<rparr>\<rparr>],
          o_tool_call_id = None, o_name = None\<rparr>,
        \<lparr>o_role = Some ''tool'', o_content = Some (OStr ''42''), o_tool_calls = None,
          o_tool_call_id = Some ''c1'', o_name = Some ''lookup''\<rparr>]
   \<and> last_recorded [(''c1'', ''search''), (''c1'', ''lookup'')] ''c1'' = Some ''lookup''"
    using e1 e2 e3 by blast
qed

section \<open>Roles of tool turns\<close>




section \<open>Unresolved tool results\<close>

text \<open>
  C1: \<open>OpenAIToGeminiConverter.convert_messages\<close> gives a tool result whose identifier has
  no entry in the map, and which has no name of its own, the empty name, where
  \<open>ClaudeToOpenAIConverter.convert_messages\<close> gives the same unresolved result the name
  \<open>unknown\<close>.
\<close>

theorem C1_unresolved_name_is_empty:
  "(\<forall>json_loads str_of.
      fst (o2g_convert_messages json_loads str_of
             [\<lparr>o_role = Some ''tool'', o_content = Some (OStr ''42''), o_tool_calls = None,
               o_tool_call_id = Some ''c9'', o_name = None\<rparr>])
      = [\<lparr>role = ''user'', parts = [FunctionResponse '''' ''42'']\<rparr>])
   \<and> (\<forall>json_dumps str_of.
      c2o_convert_messages json_dumps str_of
        [\<lparr>c_role = Some ''user'',
          c_content = Some (CList [CToolResult (Some ''c9'') (Some (JStr ''42''))]),
          c_name = None\<rparr>]
      = [\<lparr>o_role = Some ''tool'', o_content = Some (OStr ''42''), o_tool_calls = None,
           o_tool_call_id = Some ''c9'', o_name = Some ''unknown''\<rparr>])"
  by (simp add: o2g_convert_messages_def o2g_convert_message_def dget_def o_str_def
      c2o_convert_messages_def c2o_convert_message_def tool_uses_of_def tool_results_of_def
      c2o_tool_message_def content_of_json_def)

section \<open>System turns\<close>

text \<open>
  C2: of two system messages with the texts \<open>A\<close> and \<open>B\<close>,
  \<open>OpenAIToGeminiConverter.convert_request\<close> keeps only the last one as the system
  instruction, where \<open>ClaudeToGeminiConverter.convert_request\<close> joins both with a newline.
\<close>

theorem C2_last_system_turn_wins:
  "(\<forall>json_loads str_of_content str_of.
      o2g_convert_request json_loads str_of_content str_of
        \<lparr>or_messages = Some
            [\<lparr>o_role = Some ''system'', o_content = Some (OStr ''A''), o_tool_calls = None,
              o_tool_call_id = None, o_name = None\<rparr>,
             \<lparr>o_role = Some ''system'', o_content = Some (OStr ''B''), o_tool_calls = None,
              o_tool_call_id = None, o_name = None\<rparr>],
          or_tools = None\<rparr>
      = Inr \<lparr>contents = [], systemInstruction = Some [Text ''B''], tools = None\<rparr>)
   \<and> (\<forall>str_of.
      c2g_convert_request str_of
        \<lparr>cr_messages = Some
            [\<lparr>c_role = Some ''system'', c_content = Some (CStr ''A''), c_name = None\<rparr>,
             \<lparr>c_role = Some ''system'', c_content = Some (CStr ''B''), c_name = None\<rparr>],
          cr_tools = None\<rparr>
      = Inr \<lparr>contents = [], systemInstruction = Some [Text (''A'' @ [newline] @ ''B'')],
              tools = None\<rparr>)"
  by (simp add: o2g_convert_request_def o2g_convert_messages_def o2g_convert_message_def dget_def
      fix_request_issues_def c2g_convert_request_def c2g_convert_messages_def then_do_def
      system_text_of_def)

section \<open>Image blocks\<close>

text \<open>
  C4: \<open>ClaudeToOpenAIConverter.convert_messages\<close> on an assistant message that holds an
  inline base64 image next to a \<open>tool_use\<close> block writes the tool call only; the image is
  in no output message, and likewise for a user message that holds an image next to a
  \<open>tool_result\<close> block. \<open>ClaudeToGeminiConverter\<close> turns an image whose source is a URL
  into inline data with the default mime type and no data, where
  \<open>OpenAIToGeminiConverter\<close> turns a URL image into a text part that names the URL.
\<close>

theorem C4_image_dropped_with_tool_use:
  "(\<forall>json_dumps str_of.
     c2o_convert_messages json_dumps str_of
       [\<lparr>c_role = Some ''assistant'',
         c_content = Some (CList
           [CImage (Some \<lparr>src_type = Some ''base64'', src_media_type = Some ''image/png'',
                           src_data = Some ''AAAA'', src_url = None\<rparr>),
            CToolUse (Some ''c1'') (Some ''lookup'') (Some (JObject []))]),
         c_name = None\<rparr>]
     = [\<lparr>o_role = Some ''assistant'', o_content = Some (OOther JNull),
          o_tool_calls = Some [\<lparr>tc_id = Some ''c1'', tc_type = Some ''function'',
                                 tc_function = Some \<lparr>f_name = Some ''lookup'',
                                    f_arguments = Some (JStr (json_dumps (JObject [])))\<rparr>\<rparr>],
          o_tool_call_id = None, o_name = None\<rparr>])
   \<and> (\<forall>json_dumps str_of.
     c2o_convert_messages json_dumps str_of
       [\<lparr>c_role = Some ''user'',
         c_content = Some (CList
           [CToolResult (Some ''c1'') (Some (JStr ''see the picture'')),
            CImage (Some \<lparr>src_type = Some ''base64'', src_media_type = Some ''image/png'',
                           src_data = Some ''AAAA'', src_url = None\<rparr>)]),
         c_name = None\<rparr>]
     = [\<lparr>o_role = Some ''tool'', o_content = Some (OStr ''see the picture''),
          o_tool_calls = None, o_tool_call_id = Some ''c1'', o_name = Some ''unknown''\<rparr>])
   \<and> c2g_convert_item
       (CImage (Some \<lparr>src_type = Some ''url'', src_media_type = None, src_data = None,
                       src_url = Some ''https://example.com/cat.png''\<rparr>))
     = Inr [InlineData ''image/jpeg'' []]
   \<and> o2g_convert_item (OImageUrl (Some \<lparr>iu_url = Some ''https://example.com/cat.png''\<rparr>))
     = [Text ''[Image: https://example.com/cat.png]'']"
  by (simp add: c2o_convert_messages_def c2o_convert_message_def dget_def tool_uses_of_def
      texts_of_def c2o_tool_call_message_def c2o_tool_call_def truthy_def c2g_image_part_def
      startswith_def tool_results_of_def c2o_tool_message_def content_of_json_def)

section \<open>Turn-count conservation (Claude to OpenAI)\<close>

lemma c2o_message_tool_call_turns:
  "map (\<lambda>x. (o_role x, o_tool_calls x))
     (tool_call_turns (c2o_convert_message json_dumps str_of tm m))
   = map (\<lambda>tool_use. (Some ''assistant'', Some [c2o_tool_call json_dumps tool_use]))
       (assistant_tool_uses m)"
proof (cases "c_content m")
  case None
  then show ?thesis
    by (simp add: c2o_convert_message_def assistant_tool_uses_def tool_call_turns_def dget_def)
next
  case (Some content)
  show ?thesis
  proof (cases content)
    case (CStr s)
    with Some show ?thesis
      by (simp add: c2o_convert_message_def assistant_tool_uses_def tool_call_turns_def dget_def)
  next
    case (COther v)
    with Some show ?thesis
      by (simp add: c2o_convert_message_def assistant_tool_uses_def tool_call_turns_def dget_def)
  next
    case (CList items)
    have r: "dget (c_role m) '''' = ''assistant'' \<longleftrightarrow> c_role m = Some ''assistant''"
      by (cases "c_role m") (auto simp: dget_def)
    have a: "filter (\<lambda>x. o_tool_calls x \<noteq> None) (map (c2o_tool_call_message json_dumps t) us)
             = map (c2o_tool_call_message json_dumps t) us" for t us
      by (induction us) (simp_all add: c2o_tool_call_message_def)
    have b: "filter (\<lambda>x. o_tool_calls x \<noteq> None) (map (c2o_tool_message tm) rs) = []" for rs
      by (induction rs) (simp_all add: c2o_tool_message_def Let_def split: prod.splits)
    have a': "filter (\<lambda>x. \<exists>y. o_tool_calls x = Some y) (map (c2o_tool_call_message json_dumps t) us)
             = map (c2o_tool_call_message json_dumps t) us" for t us
      using a[of t us] by simp
    have b': "filter (\<lambda>x. \<exists>y. o_tool_calls x = Some y) (map (c2o_tool_message tm) rs) = []" for rs
      using b[of rs] by simp
    from Some CList show ?thesis
      using r
      by (auto simp: c2o_convert_message_def assistant_tool_uses_def tool_call_turns_def
          Let_def a' b' c2o_tool_call_message_def comp_def dget_def)
  qed
qed

lemma tool_call_turns_append: "tool_call_turns (xs @ ys) = tool_call_turns xs @ tool_call_turns ys"
  by (simp add: tool_call_turns_def)

lemma c2o_tool_call_turns_all:
  "map (\<lambda>x. (o_role x, o_tool_calls x))
     (tool_call_turns (concat (map (c2o_convert_message json_dumps str_of tm) ms)))
   = map (\<lambda>tool_use. (Some ''assistant'', Some [c2o_tool_call json_dumps tool_use]))
       (concat (map assistant_tool_uses ms))"
  by (induction ms) (simp_all add: tool_call_turns_append c2o_message_tool_call_turns, simp add: tool_call_turns_def)

text \<open>
  C7: the output messages of \<open>ClaudeToOpenAIConverter.convert_messages\<close> that carry
  \<open>tool_calls\<close> are, in order, one assistant message per \<open>tool_use\<close> block of the
  assistant turns, each with exactly one \<open>tool_calls\<close> entry, the call of that block; so
  there are exactly as many of them as there are such blocks.
\<close>

theorem C7_turn_count_conservation:
  "map (\<lambda>x. (o_role x, o_tool_calls x))
     (tool_call_turns (c2o_convert_messages json_dumps str_of ms))
   = map (\<lambda>tool_use. (Some ''assistant'', Some [c2o_tool_call json_dumps tool_use]))
       (concat (map assistant_tool_uses ms))
   \<and> length (tool_call_turns (c2o_convert_messages json_dumps str_of ms))
     = length (concat (map assistant_tool_uses ms))"
proof -
  have e: "map (\<lambda>x. (o_role x, o_tool_calls x))
     (tool_call_turns (c2o_convert_messages json_dumps str_of ms))
   = map (\<lambda>tool_use. (Some ''assistant'', Some [c2o_tool_call json_dumps tool_use]))
       (concat (map assistant_tool_uses ms))"
    by (simp add: c2o_convert_messages_def c2o_loop_concat c2o_tool_call_turns_all)
  from e have "length (map (\<lambda>x. (o_role x, o_tool_calls x))
     (tool_call_turns (c2o_convert_messages json_dumps str_of ms)))
     = length (map (\<lambda>tool_use. (Some ''assistant'', Some [c2o_tool_call json_dumps tool_use]))
       (concat (map assistant_tool_uses ms)))"
    by (rule arg_cong)
  then have l: "length (tool_call_turns (c2o_convert_messages json_dumps str_of ms))
     = length (concat (map assistant_tool_uses ms))"
    by simp
  from e l show ?thesis by (rule conjI)
qed

theorem C7_turn_count_conservation_witness:
  "\<forall>json_dumps str_of.
     map (\<lambda>x. (o_role x, o_tool_calls x))
       (tool_call_turns (c2o_convert_messages json_dumps str_of
          [\<lparr>c_role = Some ''user'', c_content = Some (CStr ''go''), c_name = None\<rparr>,
           \<lparr>c_role = Some ''assistant'',
            c_content = Some (CList [CText (Some ''calling''),
                                     CToolUse (Some ''c1'') (Some ''lookup'') (Some (JObject [])),
                                     CToolUse (Some ''c2'') (Some ''search'') (Some (JObject []))]),
            c_name = None\<rparr>,
           \<lparr>c_role = Some ''assistant'',
            c_content = Some (CList [CToolUse (Some ''c3'') (Some ''fetch'') None]),
            c_name = None\<rparr>]))
     = [(Some ''assistant'', Some [c2o_tool_call json_dumps (Some ''c1'', Some ''lookup'', Some (JObject []))]),
        (Some ''assistant'', Some [c2o_tool_call json_dumps (Some ''c2'', Some ''search'', Some (JObject []))]),
        (Some ''assistant'', Some [c2o_tool_call json_dumps (Some ''c3'', Some ''fetch'', None)])]
   \<and> length (tool_call_turns (c2o_convert_messages json_dumps str_of
          [\<lparr>c_role = Some ''user'', c_content = Some (CStr ''go''), c_name = None\<rparr>,
           \<lparr>c_role = Some ''assistant'',
            c_content = Some (CList [CText (Some ''calling''),
                                     CToolUse (Some ''c1'') (Some ''lookup'') (Some (JObject [])),
                                     CToolUse (Some ''c2'') (Some ''search'') (Some (JObject []))]),
            c_name = None\<rparr>,
           \<lparr>c_role = Some ''assistant'',
            c_content = Some (CList [CToolUse (Some ''c3'') (Some ''fetch'') None]),
            c_name = None\<rparr>])) = 3"
proof (intro allI)
  fix json_dumps :: "json \<Rightarrow> string" and str_of :: "claude_content \<Rightarrow> string"
  let ?ms = "[\<lparr>c_role = Some ''user'', c_content = Some (CStr ''go''), c_name = None\<rparr>,
           \<lparr>c_role = Some ''assistant'',
            c_content = Some (CList [CText (Some ''calling''),
                                     CToolUse (Some ''c1'') (Some ''lookup'') (Some (JObject [])),
                                     CToolUse (Some ''c2'') (Some ''search'') (Some (JObject []))]),
            c_name = None\<rparr>,
           \<lparr>c_role = Some ''assistant'',
            c_content = Some (CList [CToolUse (Some ''c3'') (Some ''fetch'') None]),
            c_name = None\<rparr>]"
  have u: "concat (map assistant_tool_uses ?ms)
           = [(Some ''c1'', Some ''lookup'', Some (JObject [])),
              (Some ''c2'', Some ''search'', Some (JObject [])),
              (Some ''c3'', Some ''fetch'', None)]"
    by (simp add: assistant_tool_uses_def tool_uses_of_def)
  show "map (\<lambda>x. (o_role x, o_tool_calls x))
       (tool_call_turns (c2o_convert_messages json_dumps str_of ?ms))
     = [(Some ''assistant'', Some [c2o_tool_call json_dumps (Some ''c1'', Some ''lookup'', Some (JObject []))]),
        (Some ''assistant'', Some [c2o_tool_call json_dumps (Some ''c2'', Some ''search'', Some (JObject []))]),
        (Some ''assistant'', Some [c2o_tool_call json_dumps (Some ''c3'', Some ''fetch'', None)])]
   \<and> length (tool_call_turns (c2o_convert_messages json_dumps str_of ?ms)) = 3"
    using C7_turn_count_conservation[of json_dumps str_of ?ms] unfolding u by simp
qed

section \<open>No turn without parts in a Gemini request\<close>

lemma fix_request_issues_contents:
  "fix_request_issues r = Inr out \<Longrightarrow>
   contents out = filter (\<lambda>content. parts content \<noteq> []) (contents r)"
  by (auto simp: fix_request_issues_def Let_def then_do_def split: option.splits sum.splits)

lemma c2g_convert_message_string:
  "string_content m \<Longrightarrow> \<exists>new. c2g_convert_message str_of m = Inr new"
  by (auto simp: string_content_def c2g_convert_message_def c2g_content_parts_def Let_def
      split: claude_content.splits)

lemma c2g_convert_messages_loop_string:
  "list_all string_content ms \<Longrightarrow> \<exists>cs. c2g_convert_messages_loop str_of ms acc = Inr cs"
proof (induction ms arbitrary: acc)
  case Nil
  then show ?case by simp
next
  case (Cons m ms)
  then obtain new where "c2g_convert_message str_of m = Inr new"
    using c2g_convert_message_string by fastforce
  with Cons show ?case by simp
qed

lemma system_texts_string:
  "list_all string_content ms \<Longrightarrow> \<exists>texts. map_err system_text_of ms = Inr texts"
proof (induction ms)
  case Nil
  then show ?case by simp
next
  case (Cons m ms)
  then obtain texts where t: "map_err system_text_of ms = Inr texts" by auto
  from Cons.prems obtain s where "system_text_of m = Inr s"
    by (auto simp: string_content_def system_text_of_def split: claude_content.splits)
  with t show ?case by simp
qed

lemma fix_request_issues_no_tools:
  "tools r = None \<Longrightarrow> \<exists>out. fix_request_issues r = Inr out"
  by (simp add: fix_request_issues_def Let_def)

lemma c2g_convert_request_returns:
  assumes "dget (cr_tools req) [] = []"
    and "list_all string_content (dget (cr_messages req) [])"
  shows "\<exists>out. c2g_convert_request str_of req = Inr out"
proof -
  let ?ms = "dget (cr_messages req) []"
  have ns: "list_all string_content (filter (\<lambda>msg. c_role msg \<noteq> Some ''system'') ?ms)"
    and sy: "list_all string_content (filter (\<lambda>msg. c_role msg = Some ''system'') ?ms)"
    using assms(2) by (auto simp: list_all_iff)
  obtain cs where cs: "c2g_convert_messages str_of (filter (\<lambda>msg. c_role msg \<noteq> Some ''system'') ?ms) = Inr cs"
    using c2g_convert_messages_loop_string[OF ns] unfolding c2g_convert_messages_def by blast
  obtain texts where tx: "map_err system_text_of (filter (\<lambda>msg. c_role msg = Some ''system'') ?ms) = Inr texts"
    using system_texts_string[OF sy] by blast
  show ?thesis
    using assms(1) cs tx
    by (simp add: c2g_convert_request_def Let_def then_do_def fix_request_issues_def)
qed

lemma o2g_convert_request_returns:
  "dget (or_tools req) [] = [] \<Longrightarrow>
   \<exists>out. o2g_convert_request json_loads str_of_content str_of req = Inr out"
  by (simp add: o2g_convert_request_def Let_def fix_request_issues_def)

text \<open>
  C10: when a Gemini-target \<open>convert_request\<close> returns a request, its contents are the
  converted turns without those that have no part, so every content of the output has a
  non-empty list of parts. The conversion returns a request at least when the request has no
  tools and, for the Claude source, every message content is a string.
\<close>

theorem C10_no_empty_parts:
  "(c2g_convert_request str_of req = Inr out \<longrightarrow>
      list_all (\<lambda>content. parts content \<noteq> []) (contents out)
      \<and> (\<exists>converted.
            c2g_convert_messages str_of
              (filter (\<lambda>msg. c_role msg \<noteq> Some ''system'') (dget (cr_messages req) []))
              = Inr converted
            \<and> contents out = filter (\<lambda>content. parts content \<noteq> []) converted))
   \<and> (o2g_convert_request json_loads str_of_content str_of' req' = Inr out' \<longrightarrow>
      list_all (\<lambda>content. parts content \<noteq> []) (contents out')
      \<and> contents out' =
          filter (\<lambda>content. parts content \<noteq> [])
            (fst (o2g_convert_messages json_loads str_of_content (dget (or_messages req') []))))
   \<and> (dget (cr_tools req) [] = [] \<and> list_all string_content (dget (cr_messages req) [])
      \<longrightarrow> (\<exists>res. c2g_convert_request str_of req = Inr res))
   \<and> (dget (or_tools req') [] = []
      \<longrightarrow> (\<exists>res. o2g_convert_request json_loads str_of_content str_of' req' = Inr res))"
proof (intro conjI impI)
  assume h: "c2g_convert_request str_of req = Inr out"
  then obtain converted si ts where
    c: "c2g_convert_messages str_of
          (filter (\<lambda>msg. c_role msg \<noteq> Some ''system'') (dget (cr_messages req) [])) = Inr converted"
    and f: "fix_request_issues \<lparr>contents = converted, systemInstruction = si, tools = ts\<rparr> = Inr out"
    by (auto simp: c2g_convert_request_def Let_def then_do_def split: sum.splits if_splits)
  from f have e: "contents out = filter (\<lambda>content. parts content \<noteq> []) converted"
    using fix_request_issues_contents by fastforce
  show "list_all (\<lambda>content. parts content \<noteq> []) (contents out)"
    unfolding e by (simp add: list_all_iff)
  show "\<exists>converted.
            c2g_convert_messages str_of
              (filter (\<lambda>msg. c_role msg \<noteq> Some ''system'') (dget (cr_messages req) []))
              = Inr converted
            \<and> contents out = filter (\<lambda>content. parts content \<noteq> []) converted"
    using c e by blast
next
  assume h: "o2g_convert_request json_loads str_of_content str_of' req' = Inr out'"
  then have e: "contents out' =
          filter (\<lambda>content. parts content \<noteq> [])
            (fst (o2g_convert_messages json_loads str_of_content (dget (or_messages req') [])))"
    unfolding o2g_convert_request_def Let_def
    using fix_request_issues_contents by fastforce
  show "list_all (\<lambda>content. parts content \<noteq> []) (contents out')"
    unfolding e by (simp add: list_all_iff)
  show "contents out' =
          filter (\<lambda>content. parts content \<noteq> [])
            (fst (o2g_convert_messages json_loads str_of_content (dget (or_messages req') [])))"
    by (rule e)
next
  assume "dget (cr_tools req) [] = [] \<and> list_all string_content (dget (cr_messages req) [])"
  then show "\<exists>res. c2g_convert_request str_of req = Inr res"
    using c2g_convert_request_returns by blast
next
  assume "dget (or_tools req') [] = []"
  then show "\<exists>res. o2g_convert_request json_loads str_of_content str_of' req' = Inr res"
    by (rule o2g_convert_request_returns)
qed

theorem C10_no_empty_parts_witness:
  "\<forall>str_of json_loads str_of_content str_of'.
     c2g_convert_request str_of
       \<lparr>cr_messages = Some [\<lparr>c_role = Some ''user'', c_content = Some (CList [COtherItem]), c_name = None\<rparr>,
                            \<lparr>c_role = Some ''user'', c_content = Some (CStr ''hi''), c_name = None\<rparr>],
        cr_tools = None\<rparr>
     = Inr \<lparr>contents = [\<lparr>role = ''user'', parts = [Text ''hi'']\<rparr>],
            systemInstruction = None, tools = None\<rparr>
   \<and> list_all (\<lambda>content. parts content \<noteq> [])
        (contents \<lparr>contents = [\<lparr>role = ''user'', parts = [Text ''hi'']\<rparr>],
                   systemInstruction = None, tools = None\<rparr>)
   \<and> o2g_convert_request json_loads str_of_content str_of'
       \<lparr>or_messages = Some [\<lparr>o_role = Some ''user'', o_content = Some (OList [OOtherItem]),
                              o_tool_calls = None, o_tool_call_id = None, o_name = None\<rparr>,
                            \<lparr>o_role = Some ''user'', o_content = Some (OStr ''hi''),
                              o_tool_calls = None, o_tool_call_id = None, o_name = None\<rparr>],
        or_tools = None\<rparr>
     = Inr \<lparr>contents = [\<lparr>role = ''user'', parts = [Text ''hi'']\<rparr>],
            systemInstruction = None, tools = None\<rparr>
   \<and> (\<exists>res. c2g_convert_request str_of
         \<lparr>cr_messages = Some [\<lparr>c_role = Some ''system'', c_content = Some (CStr ''be brief''), c_name = None\<rparr>,
                              \<lparr>c_role = Some ''user'', c_content = Some (CStr ''hi''), c_name = None\<rparr>],
          cr_tools = None\<rparr> = Inr res)"
proof (intro allI)
  fix str_of :: "claude_content \<Rightarrow> string" and json_loads :: "string \<Rightarrow> json option"
    and str_of_content :: "openai_content \<Rightarrow> string" and str_of' :: "json \<Rightarrow> string"
  let ?req = "\<lparr>cr_messages = Some [\<lparr>c_role = Some ''user'', c_content = Some (CList [COtherItem]), c_name = None\<rparr>,
                            \<lparr>c_role = Some ''user'', c_content = Some (CStr ''hi''), c_name = None\<rparr>],
        cr_tools = None\<rparr>"
  let ?req' = "\<lparr>or_messages = Some [\<lparr>o_role = Some ''user'', o_content = Some (OList [OOtherItem]),
                              o_tool_calls = None, o_tool_call_id = None, o_name = None\<rparr>,
                            \<lparr>o_role = Some ''user'', o_content = Some (OStr ''hi''),
                              o_tool_calls = None, o_tool_call_id = None, o_name = None\<rparr>],
        or_tools = None\<rparr>"
  let ?out = "\<lparr>contents = [\<lparr>role = ''user'', parts = [Text ''hi'']\<rparr>],
            systemInstruction = None, tools = None\<rparr>"
  let ?req2 = "\<lparr>cr_messages = Some [\<lparr>c_role = Some ''system'', c_content = Some (CStr ''be brief''), c_name = None\<rparr>,
                              \<lparr>c_role = Some ''user'', c_content = Some (CStr ''hi''), c_name = None\<rparr>],
          cr_tools = None\<rparr>"
  have a: "c2g_convert_request str_of ?req = Inr ?out"
    by (simp add: c2g_convert_request_def c2g_convert_messages_def c2g_convert_message_def
        c2g_content_parts_def dget_def then_do_def fix_request_issues_def)
  have b: "o2g_convert_request json_loads str_of_content str_of' ?req' = Inr ?out"
    by (simp add: o2g_convert_request_def o2g_convert_messages_def o2g_convert_message_def
        dget_def fix_request_issues_def)
  have t: "dget (or_tools ?req') [] = []"
    by (simp add: dget_def)
  from C10_no_empty_parts[of str_of ?req ?out json_loads str_of_content str_of' ?req' ?out] a b t
  have c: "list_all (\<lambda>content. parts content \<noteq> []) (contents ?out)"
    by blast
  have s: "dget (cr_tools ?req2) [] = [] \<and> list_all string_content (dget (cr_messages ?req2) [])"
    by (simp add: dget_def string_content_def)
  from C10_no_empty_parts[of str_of ?req2 ?out json_loads str_of_content str_of' ?req' ?out] s
  have d: "\<exists>res. c2g_convert_request str_of ?req2 = Inr res"
    by blast
  from a c b d show "c2g_convert_request str_of ?req = Inr ?out
     \<and> list_all (\<lambda>content. parts content \<noteq> []) (contents ?out)
     \<and> o2g_convert_request json_loads str_of_content str_of' ?req' = Inr ?out
     \<and> (\<exists>res. c2g_convert_request str_of ?req2 = Inr res)"
    by blast
qed

section \<open>Idempotence of the schema repair pass\<close>

lemma map_of_dict_set:
  "map_of (dict_set k v d) k' = (if k' = k then Some v else map_of d k')"
  by (induction d) auto

lemma rebuild_required_cases:
  assumes "rebuild_required old rb p = Inr q"
  shows "(q = p \<and> (py_in ''required'' p = Inr False
                  \<or> (\<exists>d req. p = JObject d \<and> map_of d ''required'' = Some req
                        \<and> py_in old req = Inr False)))
         \<or> (\<exists>d req ps. p = JObject d \<and> map_of d ''required'' = Some req
               \<and> py_in old req = Inr True \<and> py_iter req = Inr ps
               \<and> q = JObject (dict_set ''required'' (JArray (rb ps)) d))"
proof (cases p)
  case (JObject d)
  with assms show ?thesis
    by (auto simp: rebuild_required_def then_do_def split: sum.splits if_splits option.splits)
qed (use assms in \<open>auto simp: rebuild_required_def then_do_def split: sum.splits if_splits\<close>)

lemma rebuild_required_unchanged:
  assumes "py_in ''required'' p = Inr False
           \<or> (\<exists>d req. p = JObject d \<and> map_of d ''required'' = Some req \<and> py_in old req = Inr False)"
  shows "rebuild_required old rb p = Inr p"
  using assms by (auto simp: rebuild_required_def then_do_def)

lemma rebuild_required_idem:
  assumes "rebuild_required old rb p = Inr q" and "\<And>ps. JStr old \<notin> set (rb ps)"
  shows "rebuild_required old rb q = Inr q"
proof -
  from rebuild_required_cases[OF assms(1)] show ?thesis
  proof (elim disjE conjE exE)
    assume "q = p" "py_in ''required'' p = Inr False"
    then show ?thesis by (simp add: rebuild_required_unchanged)
  next
    fix d req
    assume "q = p" "p = JObject d" "map_of d ''required'' = Some req" "py_in old req = Inr False"
    then show ?thesis using rebuild_required_unchanged[of p old rb] by auto
  next
    fix d req ps
    assume q: "q = JObject (dict_set ''required'' (JArray (rb ps)) d)"
    have "map_of (dict_set ''required'' (JArray (rb ps)) d) ''required'' = Some (JArray (rb ps))"
      by (simp add: map_of_dict_set)
    moreover have "py_in old (JArray (rb ps)) = Inr False" using assms(2) by simp
    ultimately show ?thesis
      unfolding q using rebuild_required_unchanged[of "JObject (dict_set ''required'' (JArray (rb ps)) d)" old rb]
      by blast
  qed
qed

lemma rename_required_idem:
  "old \<noteq> new \<Longrightarrow> rename_required old new p = Inr q \<Longrightarrow> rename_required old new q = Inr q"
  unfolding rename_required_def by (rule rebuild_required_idem) auto

lemma remove_required_idem:
  "remove_required old p = Inr q \<Longrightarrow> remove_required old q = Inr q"
  unfolding remove_required_def by (rule rebuild_required_idem) auto

lemma rebuild_required_fixed_iff:
  assumes "\<And>ps. JStr old \<notin> set (rb ps)" and "rebuild_required old rb p = Inr p"
  shows "py_in ''required'' p = Inr False
         \<or> (\<exists>d req. p = JObject d \<and> map_of d ''required'' = Some req \<and> py_in old req = Inr False)"
proof -
  from rebuild_required_cases[OF assms(2)] show ?thesis
  proof (elim disjE conjE exE)
    fix d req ps
    assume p: "p = JObject d" and m: "map_of d ''required'' = Some req"
      and i: "py_in old req = Inr True"
      and e: "p = JObject (dict_set ''required'' (JArray (rb ps)) d)"
    from p e have "d = dict_set ''required'' (JArray (rb ps)) d" by simp
    then have "map_of d ''required'' = Some (JArray (rb ps))"
      by (metis map_of_dict_set)
    with m have "req = JArray (rb ps)" by simp
    with i assms(1) show ?thesis by simp
  qed auto
qed

lemma fix_images_type_cases:
  assumes "fix_images_type p = Inr q"
  shows "(q = p \<and> fix_images_type q = Inr q)
         \<or> (\<exists>d v. p = JObject d \<and> q = JObject (dict_set ''properties'' v d)
               \<and> fix_images_type q = Inr q)"
proof (cases p)
  case (JObject d)
  show ?thesis
  proof (cases "map_of d ''properties''")
    case None
    with JObject assms show ?thesis by (auto simp: fix_images_type_def then_do_def)
  next
    case (Some props)
    show ?thesis
    proof (cases "py_in ''images'' props")
      case (Inl e)
      with JObject Some assms show ?thesis by (auto simp: fix_images_type_def then_do_def)
    next
      case (Inr has_images)
      show ?thesis
      proof (cases has_images)
        case False
        with JObject Some Inr assms show ?thesis by (auto simp: fix_images_type_def then_do_def)
      next
        case True
        with JObject Some Inr assms obtain pd where pd: "props = JObject pd"
          by (cases props) (auto simp: fix_images_type_def then_do_def)
        with True Inr obtain images where im: "map_of pd ''images'' = Some images" by auto
        with JObject Some pd assms obtain idict where id: "images = JObject idict"
          by (cases images) (auto simp: fix_images_type_def then_do_def)
        show ?thesis
        proof (cases "\<exists>ts. map_of idict ''type'' = Some (JArray ts)")
          case False
          with JObject Some pd im id assms have "q = p"
            by (auto simp: fix_images_type_def then_do_def split: option.splits json.splits)
          moreover from this assms have "fix_images_type q = Inr q" by simp
          ultimately show ?thesis by simp
        next
          case True
          then obtain ts where ts: "map_of idict ''type'' = Some (JArray ts)" by blast
          let ?v = "JObject (dict_set ''images'' (JObject (dict_set ''type'' (JStr ''array'') idict)) pd)"
          from JObject Some pd im id ts assms have q: "q = JObject (dict_set ''properties'' ?v d)"
            by (auto simp: fix_images_type_def then_do_def)
          have "fix_images_type (JObject (dict_set ''properties'' ?v d))
                = Inr (JObject (dict_set ''properties'' ?v d))"
            by (simp add: fix_images_type_def then_do_def map_of_dict_set)
          with q JObject show ?thesis by blast
        qed
      qed
    qed
  qed
qed (use assms in \<open>auto simp: fix_images_type_def then_do_def split: if_splits\<close>)

lemma fix_images_type_idem: "fix_images_type p = Inr q \<Longrightarrow> fix_images_type q = Inr q"
  using fix_images_type_cases by blast

lemma rename_after_fix_images_type:
  assumes "old \<noteq> new" and "rename_required old new q = Inr q" and "fix_images_type q = Inr r"
  shows "rename_required old new r = Inr r"
proof -
  have nb: "\<And>ps. JStr old \<notin> set (map (\<lambda>param. if param = JStr old then JStr new else param) ps)"
    using assms(1) by auto
  from fix_images_type_cases[OF assms(3)] show ?thesis
  proof (elim disjE conjE exE)
    assume "r = q" then show ?thesis using assms(2) by simp
  next
    fix d v assume q: "q = JObject d" and r: "r = JObject (dict_set ''properties'' v d)"
    have m: "map_of (dict_set ''properties'' v d) ''required'' = map_of d ''required''"
      by (simp add: map_of_dict_set)
    from rebuild_required_fixed_iff[OF nb assms(2)[unfolded rename_required_def]] q
    have "map_of d ''required'' = None
          \<or> (\<exists>req. map_of d ''required'' = Some req \<and> py_in old req = Inr False)"
      by auto
    then show ?thesis
      unfolding r rename_required_def
      using m rebuild_required_unchanged[of "JObject (dict_set ''properties'' v d)" old]
      by auto
  qed
qed

lemma fix_function_declaration_idem:
  assumes "fix_function_declaration func = Inr func'"
  shows "fix_function_declaration func' = Inr func'"
proof -
  consider (seg) "fd_name func = ''segment_anything''"
    | (pira) "fd_name func = ''Pira_image2image''"
    | (edit) "fd_name func = ''gemini_edit''"
    | (outp) "fd_name func = ''outpaint''"
    | (other) "fd_name func \<noteq> ''segment_anything''" "fd_name func \<noteq> ''Pira_image2image''"
        "fd_name func \<noteq> ''gemini_edit''" "fd_name func \<noteq> ''outpaint''"
    by blast
  then show ?thesis
  proof cases
    case seg
    with assms obtain p where p: "rename_required ''object'' ''object_english_name'' (fd_parameters func) = Inr p"
      and f: "func' = func\<lparr>fd_parameters := p\<rparr>"
      by (auto simp: fix_function_declaration_def then_do_def split: sum.splits)
    have "rename_required ''object'' ''object_english_name'' p = Inr p"
      using rename_required_idem[OF _ p] by simp
    with seg f show ?thesis by (simp add: fix_function_declaration_def then_do_def)
  next
    case pira
    with assms obtain p where p: "remove_required ''cfg'' (fd_parameters func) = Inr p"
      and f: "func' = func\<lparr>fd_parameters := p\<rparr>"
      by (auto simp: fix_function_declaration_def then_do_def split: sum.splits)
    have "remove_required ''cfg'' p = Inr p"
      using remove_required_idem[OF p] by simp
    with pira f show ?thesis by (simp add: fix_function_declaration_def then_do_def)
  next
    case edit
    with assms obtain q p where q: "rename_required ''image'' ''images'' (fd_parameters func) = Inr q"
      and p: "fix_images_type q = Inr p"
      and f: "func' = func\<lparr>fd_parameters := p\<rparr>"
      by (auto simp: fix_function_declaration_def then_do_def split: sum.splits)
    have "rename_required ''image'' ''images'' q = Inr q"
      using rename_required_idem[OF _ q] by simp
    then have "rename_required ''image'' ''images'' p = Inr p"
      using rename_after_fix_images_type[OF _ _ p] by simp
    moreover have "fix_images_type p = Inr p" using fix_images_type_idem[OF p] .
    ultimately show ?thesis using edit f by (simp add: fix_function_declaration_def then_do_def)
  next
    case outp
    with assms obtain p where p: "rename_required ''prompt'' ''english_prompt'' (fd_parameters func) = Inr p"
      and f: "func' = func\<lparr>fd_parameters := p\<rparr>"
      by (auto simp: fix_function_declaration_def then_do_def split: sum.splits)
    have "rename_required ''prompt'' ''english_prompt'' p = Inr p"
      using rename_required_idem[OF _ p] by simp
    with outp f show ?thesis by (simp add: fix_function_declaration_def then_do_def)
  next
    case other
    with assms show ?thesis by (simp add: fix_function_declaration_def)
  qed
qed

lemma map_err_idem:
  assumes "\<And>x y. f x = Inr y \<Longrightarrow> f y = Inr y"
  shows "map_err f xs = Inr ys \<Longrightarrow> map_err f ys = Inr ys"
proof (induction xs arbitrary: ys)
  case Nil
  then show ?case by simp
next
  case (Cons x xs)
  then obtain y ys' where y: "f x = Inr y" and ys': "map_err f xs = Inr ys'" and e: "ys = y # ys'"
    by (auto split: sum.splits)
  from assms[OF y] Cons.IH[OF ys'] e show ?case by simp
qed

lemma fix_tool_idem: "fix_tool tool = Inr tool' \<Longrightarrow> fix_tool tool' = Inr tool'"
proof -
  assume h: "fix_tool tool = Inr tool'"
  then obtain fs where fs: "map_err fix_function_declaration (functionDeclarations tool) = Inr fs"
    and t: "tool' = tool\<lparr>functionDeclarations := fs\<rparr>"
    by (auto simp: fix_tool_def then_do_def split: sum.splits)
  have "map_err fix_function_declaration fs = Inr fs"
    using map_err_idem[of fix_function_declaration, OF fix_function_declaration_idem fs] .
  with t show ?thesis by (simp add: fix_tool_def then_do_def)
qed

lemma fix_request_issues_idem:
  assumes "fix_request_issues r = Inr r'"
  shows "fix_request_issues r' = Inr r'"
proof (cases "tools r")
  case None
  with assms show ?thesis by (auto simp: fix_request_issues_def Let_def)
next
  case (Some ts)
  with assms obtain ts' where ts': "map_err fix_tool ts = Inr ts'"
    and r': "r' = r\<lparr>contents := filter (\<lambda>content. parts content \<noteq> []) (contents r),
                     tools := Some ts'\<rparr>"
    by (auto simp: fix_request_issues_def Let_def then_do_def split: sum.splits)
  have "map_err fix_tool ts' = Inr ts'"
    using map_err_idem[of fix_tool, OF fix_tool_idem ts'] .
  with r' show ?thesis by (simp add: fix_request_issues_def Let_def then_do_def)
qed

text \<open>
  C9: the repair pass is idempotent: running \<open>fix_request_issues\<close> on its own result
  gives that result again, and a request on which the pass raises raises in both cases.
\<close>

theorem C9_repair_idempotent:
  "then_do (fix_request_issues request_data) fix_request_issues = fix_request_issues request_data"
proof (cases "fix_request_issues request_data")
  case (Inl e)
  then show ?thesis by (simp add: then_do_def)
next
  case (Inr r')
  then show ?thesis using fix_request_issues_idem[OF Inr] by (simp add: then_do_def)
qed

theorem C9_repair_idempotent_witness:
  "fix_request_issues
     \<lparr>contents = [\<lparr>role = ''user'', parts = []\<rparr>, \<lparr>role = ''user'', parts = [Text ''hi'']\<rparr>],
      systemInstruction = None,
      tools = Some [\<lparr>functionDeclarations =
        [\<lparr>fd_name = ''segment_anything'', fd_description = ''segment'',
          fd_parameters = JObject [(''properties'', JObject [(''object_english_name'', JObject [])]),
                                   (''required'', JArray [JStr ''image'', JStr ''object''])]\<rparr>,
         \<lparr>fd_name = ''gemini_edit'', fd_description = ''edit'',
          fd_parameters = JObject [(''properties'',
                                      JObject [(''images'', JObject [(''type'', JArray [JStr ''array'', JStr ''null''])])]),
                                   (''required'', JArray [JStr ''image''])]\<rparr>]\<rparr>]\<rparr>
   = Inr \<lparr>contents = [\<lparr>role = ''user'', parts = [Text ''hi'']\<rparr>],
      systemInstruction = None,
      tools = Some [\<lparr>functionDeclarations =
        [\<lparr>fd_name = ''segment_anything'', fd_description = ''segment'',
          fd_parameters = JObject [(''properties'', JObject [(''object_english_name'', JObject [])]),
                                   (''required'', JArray [JStr ''image'', JStr ''object_english_name''])]\<rparr>,
         \<lparr>fd_name = ''gemini_edit'', fd_description = ''edit'',
          fd_parameters = JObject [(''properties'',
                                      JObject [(''images'', JObject [(''type'', JStr ''array'')])]),
                                   (''required'', JArray [JStr ''images''])]\<rparr>]\<rparr>]\<rparr>
   \<and> fix_request_issues
     \<lparr>contents = [\<lparr>role = ''user'', parts = [Text ''hi'']\<rparr>],
      systemInstruction = None,
      tools = Some [\<lparr>functionDeclarations =
        [\<lparr>fd_name = ''segment_anything'', fd_description = ''segment'',
          fd_parameters = JObject [(''properties'', JObject [(''object_english_name'', JObject [])]),
                                   (''required'', JArray [JStr ''image'', JStr ''object_english_name''])]\<rparr>,
         \<lparr>fd_name = ''gemini_edit'', fd_description = ''edit'',
          fd_parameters = JObject [(''properties'',
                                      JObject [(''images'', JObject [(''type'', JStr ''array'')])]),
                                   (''required'', JArray [JStr ''images''])]\<rparr>]\<rparr>]\<rparr>
   = Inr \<lparr>contents = [\<lparr>role = ''user'', parts = [Text ''hi'']\<rparr>],
      systemInstruction = None,
      tools = Some [\<lparr>functionDeclarations =
        [\<lparr>fd_name = ''segment_anything'', fd_description = ''segment'',
          fd_parameters = JObject [(''properties'', JObject [(''object_english_name'', JObject [])]),
                                   (''required'', JArray [JStr ''image'', JStr ''object_english_name''])]\<rparr>,
         \<lparr>fd_name = ''gemini_edit'', fd_description = ''edit'',
          fd_parameters = JObject [(''properties'',
                                      JObject [(''images'', JObject [(''type'', JStr ''array'')])]),
                                   (''required'', JArray [JStr ''images''])]\<rparr>]\<rparr>]\<rparr>"
proof -
  let ?r0 = "\<lparr>contents = [\<lparr>role = ''user'', parts = []\<rparr>, \<lparr>role = ''user'', parts = [Text ''hi'']\<rparr>],
      systemInstruction = None,
      tools = Some [\<lparr>functionDeclarations =
        [\<lparr>fd_name = ''segment_anything'', fd_description = ''segment'',
          fd_parameters = JObject [(''properties'', JObject [(''object_english_name'', JObject [])]),
                                   (''required'', JArray [JStr ''image'', JStr ''object''])]\<rparr>,
         \<lparr>fd_name = ''gemini_edit'', fd_description = ''edit'',
          fd_parameters = JObject [(''properties'',
                                      JObject [(''images'', JObject [(''type'', JArray [JStr ''array'', JStr ''null''])])]),
                                   (''required'', JArray [JStr ''image''])]\<rparr>]\<rparr>]\<rparr>"
  let ?r1 = "\<lparr>contents = [\<lparr>role = ''user'', parts = [Text ''hi'']\<rparr>],
      systemInstruction = None,
      tools = Some [\<lparr>functionDeclarations =
        [\<lparr>fd_name = ''segment_anything'', fd_description = ''segment'',
          fd_parameters = JObject [(''properties'', JObject [(''object_english_name'', JObject [])]),
                                   (''required'', JArray [JStr ''image'', JStr ''object_english_name''])]\<rparr>,
         \<lparr>fd_name = ''gemini_edit'', fd_description = ''edit'',
          fd_parameters = JObject [(''properties'',
                                      JObject [(''images'', JObject [(''type'', JStr ''array'')])]),
                                   (''required'', JArray [JStr ''images''])]\<rparr>]\<rparr>]\<rparr>"
  have a: "fix_request_issues ?r0 = Inr ?r1"
    by (simp add: fix_request_issues_def fix_tool_def fix_function_declaration_def then_do_def
        rename_required_def rebuild_required_def fix_images_type_def)
  from C9_repair_idempotent[of ?r0] have b: "fix_request_issues ?r1 = Inr ?r1"
    unfolding a by (simp add: then_do_def)
  from a b show ?thesis by (rule conjI)
qed

section \<open>Tool declarations and the parameter schema\<close>

lemma dict_set_same: "map_of d k = Some v \<Longrightarrow> dict_set k v d = d"
  by (induction d) (auto split: if_splits)

lemma no_enum_lookup: "no_enum (JObject d) \<Longrightarrow> map_of d k = Some v \<Longrightarrow> no_enum v"
proof -
  assume a: "no_enum (JObject d)" and b: "map_of d k = Some v"
  from b have "(k, v) \<in> set d" by (rule map_of_SomeD)
  with a show ?thesis by (auto simp: list_all_iff)
qed

lemma convert_enum_values_no_enum:
  "no_enum schema \<Longrightarrow> convert_enum_values str_of schema = schema"
proof (induction str_of schema rule: convert_enum_values.induct)
  case (1 str_of d)
  have e: "stringify_enum str_of d = d"
    using "1.prems" by (simp add: stringify_enum_def)
  have p: "(case map_of d ''properties'' of
             Some (JObject ps) \<Rightarrow>
               dict_set ''properties''
                 (JObject (map (\<lambda>kv. (fst kv, convert_enum_values str_of (snd kv))) ps))
           | _ \<Rightarrow> (\<lambda>schema_copy. schema_copy)) d = d"
  proof (cases "map_of d ''properties''")
    case None
    then show ?thesis by simp
  next
    case (Some v)
    show ?thesis
    proof (cases v)
      case (JObject ps)
      have ne: "no_enum (JObject ps)" using no_enum_lookup[OF "1.prems" Some] JObject by simp
      have "map (\<lambda>kv. (fst kv, convert_enum_values str_of (snd kv))) ps = ps"
      proof (rule map_idI)
        fix kv assume kv: "kv \<in> set ps"
        with ne have "no_enum (snd kv)" by (auto simp: list_all_iff)
        with "1.IH"(3)[OF Some JObject kv] show "(fst kv, convert_enum_values str_of (snd kv)) = kv"
          by simp
      qed
      with Some JObject show ?thesis by (simp add: dict_set_same)
    qed (use Some in auto)
  qed
  have i: "(case map_of d ''items'' of
            Some it \<Rightarrow> dict_set ''items'' (convert_enum_values str_of it)
          | None \<Rightarrow> (\<lambda>schema_copy. schema_copy)) d = d"
  proof (cases "map_of d ''items''")
    case None
    then show ?thesis by simp
  next
    case (Some it)
    have "no_enum it" using no_enum_lookup[OF "1.prems" Some] .
    with "1.IH"(2)[OF Some] Some show ?thesis by (simp add: dict_set_same)
  qed
  have a: "(case map_of d ''additionalProperties'' of
           Some (JObject ap) \<Rightarrow>
             dict_set ''additionalProperties'' (convert_enum_values str_of (JObject ap))
         | _ \<Rightarrow> (\<lambda>schema_copy. schema_copy)) d = d"
  proof (cases "map_of d ''additionalProperties''")
    case None
    then show ?thesis by simp
  next
    case (Some v)
    show ?thesis
    proof (cases v)
      case (JObject ap)
      have "no_enum (JObject ap)" using no_enum_lookup[OF "1.prems" Some] JObject by simp
      with "1.IH"(1)[OF Some JObject] Some JObject show ?thesis by (simp add: dict_set_same)
    qed (use Some in auto)
  qed
  show ?case by (simp add: e p i a)
qed simp_all

lemma o2g_convert_tools_parameters:
  "map fd_parameters (concat (map functionDeclarations (o2g_convert_tools str_of openai_tools)))
   = map (\<lambda>tool. convert_enum_values str_of (openai_schema_of tool))
       (filter is_function_tool openai_tools)"
proof -
  define fds where "fds = concat (map (\<lambda>tool.
              if ot_type tool = Some ''function'' then
                (let function_data = dget (ot_function tool)
                       \<lparr>fn_name = None, fn_description = None, fn_parameters = None\<rparr>
                 in [\<lparr>fd_name = dget (fn_name function_data) [],
                      fd_description = dget (fn_description function_data) [],
                      fd_parameters =
                        convert_enum_values str_of (dget (fn_parameters function_data) (JObject []))\<rparr>])
              else []) openai_tools)"
  have k: "map fd_parameters fds
      = map (\<lambda>tool. convert_enum_values str_of (openai_schema_of tool))
       (filter is_function_tool openai_tools)"
    unfolding fds_def
    by (induction openai_tools) (simp_all add: is_function_tool_def openai_schema_of_def Let_def)
  have "o2g_convert_tools str_of openai_tools
        = (if fds \<noteq> [] then [\<lparr>functionDeclarations = fds\<rparr>] else [])"
    unfolding fds_def o2g_convert_tools_def Let_def by (rule refl)
  then have "concat (map functionDeclarations (o2g_convert_tools str_of openai_tools)) = fds"
    by (cases "fds = []") simp_all
  with k show ?thesis by simp
qed

lemma map_fst_dict_set:
  "map_of d k \<noteq> None \<Longrightarrow> map fst (dict_set k v d) = map fst d"
  by (induction d) (auto split: if_splits)

lemma convert_enum_values_object:
  "\<exists>d'. convert_enum_values str_of (JObject d) = JObject d'
     \<and> map fst d' = map fst d
     \<and> map_of d' ''enum'' =
         (case map_of d ''enum'' of
            Some (JArray vs) \<Rightarrow> Some (JArray (map (\<lambda>val. JStr (str_of val)) vs))
          | other \<Rightarrow> other)
     \<and> map_of d' ''properties'' =
         (case map_of d ''properties'' of
            Some (JObject ps) \<Rightarrow>
              Some (JObject (map (\<lambda>kv. (fst kv, convert_enum_values str_of (snd kv))) ps))
          | other \<Rightarrow> other)
     \<and> map_of d' ''items'' = map_option (convert_enum_values str_of) (map_of d ''items'')
     \<and> map_of d' ''additionalProperties'' =
         (case map_of d ''additionalProperties'' of
            Some (JObject ap) \<Rightarrow> Some (convert_enum_values str_of (JObject ap))
          | other \<Rightarrow> other)
     \<and> (\<forall>k. k \<noteq> ''enum'' \<and> k \<noteq> ''properties'' \<and> k \<noteq> ''items''
              \<and> k \<noteq> ''additionalProperties'' \<longrightarrow> map_of d' k = map_of d k)"
proof -
  define upd where "upd = (\<lambda>k vo (c :: (string \<times> json) list).
     case vo of None \<Rightarrow> c | Some v \<Rightarrow> dict_set k v c)"
  define e_new where "e_new =
     (case map_of d ''enum'' of
        Some (JArray vs) \<Rightarrow> Some (JArray (map (\<lambda>val. JStr (str_of val)) vs))
      | _ \<Rightarrow> None)"
  define p_new where "p_new =
     (case map_of d ''properties'' of
        Some (JObject ps) \<Rightarrow>
          Some (JObject (map (\<lambda>kv. (fst kv, convert_enum_values str_of (snd kv))) ps))
      | _ \<Rightarrow> None)"
  define i_new where "i_new = map_option (convert_enum_values str_of) (map_of d ''items'')"
  define a_new where "a_new =
     (case map_of d ''additionalProperties'' of
        Some (JObject ap) \<Rightarrow> Some (convert_enum_values str_of (JObject ap))
      | _ \<Rightarrow> None)"
  have look: "map_of (upd k vo c) k' =
      (if k' = k then (case vo of None \<Rightarrow> map_of c k | Some v \<Rightarrow> Some v) else map_of c k')"
    for k vo c k'
    by (cases vo) (simp_all add: upd_def map_of_dict_set)
  have keys: "(vo \<noteq> None \<Longrightarrow> map_of c k \<noteq> None) \<Longrightarrow> map fst (upd k vo c) = map fst c"
    for k vo c
    by (cases vo) (simp_all add: upd_def map_fst_dict_set)
  have s1: "stringify_enum str_of d = upd ''enum'' e_new d"
    by (simp add: stringify_enum_def upd_def e_new_def split: option.splits json.splits)
  have s2: "(case map_of d ''properties'' of
             Some (JObject ps) \<Rightarrow>
               dict_set ''properties''
                 (JObject (map (\<lambda>kv. (fst kv, convert_enum_values str_of (snd kv))) ps))
           | _ \<Rightarrow> (\<lambda>schema_copy. schema_copy)) = upd ''properties'' p_new"
    by (simp add: upd_def p_new_def fun_eq_iff split: option.splits json.splits)
  have s3: "(case map_of d ''items'' of
            Some it \<Rightarrow> dict_set ''items'' (convert_enum_values str_of it)
          | None \<Rightarrow> (\<lambda>schema_copy. schema_copy)) = upd ''items'' i_new"
    by (simp add: upd_def i_new_def fun_eq_iff split: option.splits)
  have s4: "(case map_of d ''additionalProperties'' of
           Some (JObject ap) \<Rightarrow>
             dict_set ''additionalProperties'' (convert_enum_values str_of (JObject ap))
         | _ \<Rightarrow> (\<lambda>schema_copy. schema_copy)) = upd ''additionalProperties'' a_new"
    by (simp add: upd_def a_new_def fun_eq_iff split: option.splits json.splits)
  let ?d' = "upd ''additionalProperties'' a_new
               (upd ''items'' i_new (upd ''properties'' p_new (upd ''enum'' e_new d)))"
  have r: "convert_enum_values str_of (JObject d) = JObject ?d'"
    by (subst convert_enum_values.simps(1)) (simp only: s1 s2 s3 s4)
  have pe: "e_new \<noteq> None \<Longrightarrow> map_of d ''enum'' \<noteq> None"
    by (auto simp: e_new_def split: option.splits)
  have pp: "p_new \<noteq> None \<Longrightarrow> map_of d ''properties'' \<noteq> None"
    by (auto simp: p_new_def split: option.splits)
  have pi: "i_new \<noteq> None \<Longrightarrow> map_of d ''items'' \<noteq> None"
    by (auto simp: i_new_def)
  have pa: "a_new \<noteq> None \<Longrightarrow> map_of d ''additionalProperties'' \<noteq> None"
    by (auto simp: a_new_def split: option.splits)
  have k1: "map fst (upd ''enum'' e_new d) = map fst d"
    using pe by (intro keys) simp
  have k2: "map fst (upd ''properties'' p_new (upd ''enum'' e_new d)) = map fst d"
    using pp keys[of p_new "upd ''enum'' e_new d" "''properties''"] k1 by (simp add: look)
  have k3: "map fst (upd ''items'' i_new (upd ''properties'' p_new (upd ''enum'' e_new d)))
            = map fst d"
    using pi keys[of i_new "upd ''properties'' p_new (upd ''enum'' e_new d)" "''items''"] k2
    by (simp add: look)
  have k4: "map fst ?d' = map fst d"
    using pa keys[of a_new "upd ''items'' i_new (upd ''properties'' p_new (upd ''enum'' e_new d))"
        "''additionalProperties''"] k3
    by (simp add: look)
  have l1: "map_of ?d' ''enum'' =
         (case map_of d ''enum'' of
            Some (JArray vs) \<Rightarrow> Some (JArray (map (\<lambda>val. JStr (str_of val)) vs))
          | other \<Rightarrow> other)"
    by (simp add: look e_new_def split: option.splits json.splits)
  have l2: "map_of ?d' ''properties'' =
         (case map_of d ''properties'' of
            Some (JObject ps) \<Rightarrow>
              Some (JObject (map (\<lambda>kv. (fst kv, convert_enum_values str_of (snd kv))) ps))
          | other \<Rightarrow> other)"
    by (simp add: look p_new_def split: option.splits json.splits)
  have l3: "map_of ?d' ''items'' = map_option (convert_enum_values str_of) (map_of d ''items'')"
    by (simp add: look i_new_def split: option.splits)
  have l4: "map_of ?d' ''additionalProperties'' =
         (case map_of d ''additionalProperties'' of
            Some (JObject ap) \<Rightarrow> Some (convert_enum_values str_of (JObject ap))
          | other \<Rightarrow> other)"
    by (simp add: look a_new_def split: option.splits json.splits)
  have l5: "\<forall>k. k \<noteq> ''enum'' \<and> k \<noteq> ''properties'' \<and> k \<noteq> ''items''
              \<and> k \<noteq> ''additionalProperties'' \<longrightarrow> map_of ?d' k = map_of d k"
    by (simp add: look)
  from r k4 l1 l2 l3 l4 l5 show ?thesis by blast
qed

lemma convert_enum_values_not_object:
  "(\<forall>d. schema \<noteq> JObject d) \<Longrightarrow> convert_enum_values str_of schema = schema"
  by (cases schema) simp_all

text \<open>
  C5 (as amended): the Claude-source translators place the \<open>input_schema\<close> of each tool
  (an empty object when absent) unchanged under \<open>parameters\<close>. The OpenAI-to-Gemini
  translator places, for each tool of type \<open>function\<close>, the result of
  \<open>convert_enum_values\<close> on its schema. On an object that result is an object with the
  same keys in the same order, where the value of \<open>enum\<close>, when it is a list, is the list
  of its values as strings; the value of \<open>properties\<close>, when it is an object, has each of
  its values converted; the value of \<open>items\<close> is converted; the value of
  \<open>additionalProperties\<close>, when it is an object, is converted; every other entry is
  unchanged. A schema that is not an object is returned as it is, and so is a schema in
  which no object has an \<open>enum\<close> key.
\<close>

theorem C5_schema_body:
  "map fd_parameters (c2g_convert_tools claude_tools)
     = map (\<lambda>tool. dget (t_input_schema tool) (JObject [])) claude_tools
   \<and> map (\<lambda>tool. map_option fn_parameters (ot_function tool)) (c2o_convert_tools claude_tools)
     = map (\<lambda>tool. Some (Some (dget (t_input_schema tool) (JObject [])))) claude_tools
   \<and> map fd_parameters (concat (map functionDeclarations (o2g_convert_tools str_of openai_tools)))
     = map (\<lambda>tool. convert_enum_values str_of (openai_schema_of tool))
         (filter is_function_tool openai_tools)
   \<and> (\<exists>d'. convert_enum_values str_of (JObject d) = JObject d'
         \<and> map fst d' = map fst d
         \<and> map_of d' ''enum'' =
             (case map_of d ''enum'' of
                Some (JArray vs) \<Rightarrow> Some (JArray (map (\<lambda>val. JStr (str_of val)) vs))
              | other \<Rightarrow> other)
         \<and> map_of d' ''properties'' =
             (case map_of d ''properties'' of
                Some (JObject ps) \<Rightarrow>
                  Some (JObject (map (\<lambda>kv. (fst kv, convert_enum_values str_of (snd kv))) ps))
              | other \<Rightarrow> other)
         \<and> map_of d' ''items'' = map_option (convert_enum_values str_of) (map_of d ''items'')
         \<and> map_of d' ''additionalProperties'' =
             (case map_of d ''additionalProperties'' of
                Some (JObject ap) \<Rightarrow> Some (convert_enum_values str_of (JObject ap))
              | other \<Rightarrow> other)
         \<and> (\<forall>k. k \<noteq> ''enum'' \<and> k \<noteq> ''properties'' \<and> k \<noteq> ''items''
                  \<and> k \<noteq> ''additionalProperties'' \<longrightarrow> map_of d' k = map_of d k))
   \<and> ((\<forall>d. schema \<noteq> JObject d) \<longrightarrow> convert_enum_values str_of schema = schema)
   \<and> (no_enum schema \<longrightarrow> convert_enum_values str_of schema = schema)"
proof (intro conjI)
  show "map fd_parameters (c2g_convert_tools claude_tools)
     = map (\<lambda>tool. dget (t_input_schema tool) (JObject [])) claude_tools"
    by (simp add: c2g_convert_tools_def comp_def)
  show "map (\<lambda>tool. map_option fn_parameters (ot_function tool)) (c2o_convert_tools claude_tools)
     = map (\<lambda>tool. Some (Some (dget (t_input_schema tool) (JObject [])))) claude_tools"
    by (simp add: c2o_convert_tools_def comp_def)
  show "map fd_parameters (concat (map functionDeclarations (o2g_convert_tools str_of openai_tools)))
     = map (\<lambda>tool. convert_enum_values str_of (openai_schema_of tool))
         (filter is_function_tool openai_tools)"
    by (rule o2g_convert_tools_parameters)
  show "\<exists>d'. convert_enum_values str_of (JObject d) = JObject d'
         \<and> map fst d' = map fst d
         \<and> map_of d' ''enum'' =
             (case map_of d ''enum'' of
                Some (JArray vs) \<Rightarrow> Some (JArray (map (\<lambda>val. JStr (str_of val)) vs))
              | other \<Rightarrow> other)
         \<and> map_of d' ''properties'' =
             (case map_of d ''properties'' of
                Some (JObject ps) \<Rightarrow>
                  Some (JObject (map (\<lambda>kv. (fst kv, convert_enum_values str_of (snd kv))) ps))
              | other \<Rightarrow> other)
         \<and> map_of d' ''items'' = map_option (convert_enum_values str_of) (map_of d ''items'')
         \<and> map_of d' ''additionalProperties'' =
             (case map_of d ''additionalProperties'' of
                Some (JObject ap) \<Rightarrow> Some (convert_enum_values str_of (JObject ap))
              | other \<Rightarrow> other)
         \<and> (\<forall>k. k \<noteq> ''enum'' \<and> k \<noteq> ''properties'' \<and> k \<noteq> ''items''
                  \<and> k \<noteq> ''additionalProperties'' \<longrightarrow> map_of d' k = map_of d k)"
    by (rule convert_enum_values_object)
  show "(\<forall>d. schema \<noteq> JObject d) \<longrightarrow> convert_enum_values str_of schema = schema"
    using convert_enum_values_not_object by blast
  show "no_enum schema \<longrightarrow> convert_enum_values str_of schema = schema"
    using convert_enum_values_no_enum by blast
qed

theorem C5_schema_body_witness:
  "\<forall>str_of.
     map fd_parameters (concat (map functionDeclarations (o2g_convert_tools str_of
       [\<lparr>ot_type = Some ''function'',
         ot_function = Some \<lparr>fn_name = Some ''lookup'', fn_description = Some ''look up'',
           fn_parameters = Some (JObject [(''type'', JStr ''object''),
              (''properties'', JObject [(''q'', JObject [(''type'', JStr ''string'')])]),
              (''required'', JArray [JStr ''q''])])\<rparr>\<rparr>])))
     = [JObject [(''type'', JStr ''object''),
              (''properties'', JObject [(''q'', JObject [(''type'', JStr ''string'')])]),
              (''required'', JArray [JStr ''q''])]]
   \<and> (\<exists>d'. convert_enum_values str_of
              (JObject [(''type'', JStr ''integer''), (''enum'', JArray [JInt 1, JInt 2])])
            = JObject d'
          \<and> map fst d' = [''type'', ''enum'']
          \<and> map_of d' ''type'' = Some (JStr ''integer'')
          \<and> map_of d' ''enum'' = Some (JArray [JStr (str_of (JInt 1)), JStr (str_of (JInt 2))]))
   \<and> (\<exists>d'. convert_enum_values str_of
              (JObject [(''type'', JStr ''object''),
                        (''properties'',
                           JObject [(''n'', JObject [(''enum'', JArray [JInt 3])])]),
                        (''items'', JObject [(''enum'', JArray [JInt 4])])])
            = JObject d'
          \<and> map_of d' ''properties'' =
              Some (JObject [(''n'', JObject [(''enum'', JArray [JStr (str_of (JInt 3))])])])
          \<and> map_of d' ''items'' = Some (JObject [(''enum'', JArray [JStr (str_of (JInt 4))])]))
   \<and> convert_enum_values str_of (JArray [JInt 1]) = JArray [JInt 1]"
proof
  fix str_of :: "json \<Rightarrow> string"
  let ?schema = "JObject [(''type'', JStr ''object''),
              (''properties'', JObject [(''q'', JObject [(''type'', JStr ''string'')])]),
              (''required'', JArray [JStr ''q''])]"
  let ?tool = "\<lparr>ot_type = Some ''function'',
         ot_function = Some \<lparr>fn_name = Some ''lookup'', fn_description = Some ''look up'',
           fn_parameters = Some ?schema\<rparr>\<rparr>"
  let ?d1 = "[(''type'', JStr ''integer''), (''enum'', JArray [JInt 1, JInt 2])]"
  let ?d2 = "[(''type'', JStr ''object''),
              (''properties'', JObject [(''n'', JObject [(''enum'', JArray [JInt 3])])]),
              (''items'', JObject [(''enum'', JArray [JInt 4])])]"
  have n: "no_enum ?schema" by simp
  have a: "map fd_parameters (concat (map functionDeclarations (o2g_convert_tools str_of [?tool])))
        = [?schema]"
    using C5_schema_body[where claude_tools = "[]" and str_of = str_of and openai_tools = "[?tool]"
        and schema = ?schema and d = "[]"] n
    by (simp add: is_function_tool_def openai_schema_of_def dget_def)
  have b: "\<exists>d'. convert_enum_values str_of (JObject ?d1) = JObject d'
          \<and> map fst d' = [''type'', ''enum'']
          \<and> map_of d' ''type'' = Some (JStr ''integer'')
          \<and> map_of d' ''enum'' = Some (JArray [JStr (str_of (JInt 1)), JStr (str_of (JInt 2))])"
    using C5_schema_body[where claude_tools = "[]" and str_of = str_of and openai_tools = "[]"
        and schema = JNull and d = ?d1]
    by auto
  have c: "\<exists>d'. convert_enum_values str_of (JObject ?d2) = JObject d'
          \<and> map_of d' ''properties'' =
              Some (JObject [(''n'', JObject [(''enum'', JArray [JStr (str_of (JInt 3))])])])
          \<and> map_of d' ''items'' = Some (JObject [(''enum'', JArray [JStr (str_of (JInt 4))])])"
    using C5_schema_body[where claude_tools = "[]" and str_of = str_of and openai_tools = "[]"
        and schema = JNull and d = ?d2]
    by (auto simp: stringify_enum_def)
  have e: "convert_enum_values str_of (JArray [JInt 1]) = JArray [JInt 1]"
    using C5_schema_body[where claude_tools = "[]" and str_of = str_of and openai_tools = "[]"
        and schema = "JArray [JInt 1]" and d = "[]"]
    by simp
  from a b c e show "map fd_parameters (concat (map functionDeclarations (o2g_convert_tools str_of [?tool])))
        = [?schema]
   \<and> (\<exists>d'. convert_enum_values str_of (JObject ?d1) = JObject d'
          \<and> map fst d' = [''type'', ''enum'']
          \<and> map_of d' ''type'' = Some (JStr ''integer'')
          \<and> map_of d' ''enum'' = Some (JArray [JStr (str_of (JInt 1)), JStr (str_of (JInt 2))]))
   \<and> (\<exists>d'. convert_enum_values str_of (JObject ?d2) = JObject d'
          \<and> map_of d' ''properties'' =
              Some (JObject [(''n'', JObject [(''enum'', JArray [JStr (str_of (JInt 3))])])])
          \<and> map_of d' ''items'' = Some (JObject [(''enum'', JArray [JStr (str_of (JInt 4))])]))
   \<and> convert_enum_values str_of (JArray [JInt 1]) = JArray [JInt 1]"
    by blast
qed

text \<open>
  The claim as stated fails for the OpenAI source: the integer values of an \<open>enum\<close> list
  are replaced by strings.
\<close>

theorem C5_schema_body_counterexample:
  "\<forall>str_of.
     map fd_parameters (concat (map functionDeclarations (o2g_convert_tools str_of
       [\<lparr>ot_type = Some ''function'',
         ot_function = Some \<lparr>fn_name = Some ''pick'', fn_description = Some ''pick one'',
           fn_parameters = Some (JObject [(''type'', JStr ''integer''),
                                          (''enum'', JArray [JInt 1, JInt 2])])\<rparr>\<rparr>])))
     = [JObject [(''type'', JStr ''integer''),
                 (''enum'', JArray [JStr (str_of (JInt 1)), JStr (str_of (JInt 2))])]]
     \<and> JObject [(''type'', JStr ''integer''),
                 (''enum'', JArray [JStr (str_of (JInt 1)), JStr (str_of (JInt 2))])]
       \<noteq> JObject [(''type'', JStr ''integer''), (''enum'', JArray [JInt 1, JInt 2])]"
  by (simp add: o2g_convert_tools_def dget_def stringify_enum_def)

end
